theory Spec2Isabelle
  imports Main "HOL-Library.Word" "HOL-Library.Sublist"
begin

section \<open>The data of offsetFix.h\<close>

type_synonym byte = "8 word"
type_synonym UInt32 = "32 word"

text \<open>
  A C array of 256 elements, \<^verbatim>\<open>T a[256]\<close>: its length is part of its type. Reads and
  writes are meant for indices below 256 (beyond that C leaves the behaviour undefined;
  here a write out of range changes nothing).
\<close>

typedef 'a array256 = "{xs :: 'a list. length xs = 256}"
  by (rule exI [of _ "replicate 256 undefined"]) simp

setup_lifting type_definition_array256

lift_definition a256_fill :: "'a \<Rightarrow> 'a array256" is "\<lambda>v. replicate 256 v"
  by simp

lift_definition a256_list :: "'a array256 \<Rightarrow> 'a list" is "\<lambda>xs. xs" .

lift_definition a256_get :: "'a array256 \<Rightarrow> nat \<Rightarrow> 'a" is "\<lambda>xs i. xs ! i" .

lift_definition a256_set :: "'a array256 \<Rightarrow> nat \<Rightarrow> 'a \<Rightarrow> 'a array256" is "\<lambda>xs i v. xs[i := v]"
  by simp

text \<open>
  \<^verbatim>\<open>struct Offsets { int x, y; float xf, zf; float zOff; float wdtXOff, wdtYOff, wdtZOff; }\<close>.
  The two ints are 32-bit words; a float is kept as its 32-bit IEEE pattern (no arithmetic
  on floats occurs in the sources at hand). The fields \<^verbatim>\<open>x\<close> and \<^verbatim>\<open>y\<close> are named
  \<open>offs_x\<close> and \<open>offs_y\<close>, since a record field is a constant of the theory.
\<close>

record Offsets =
  offs_x :: "32 word"
  offs_y :: "32 word"
  xf :: "32 word"
  zf :: "32 word"
  zOff :: "32 word"
  wdtXOff :: "32 word"
  wdtYOff :: "32 word"
  wdtZOff :: "32 word"

text \<open>
  \<^verbatim>\<open>struct MCIN { UInt32 offset, size, temp1, temp2; }\<close>: one entry of the chunk index.
  \<^verbatim>\<open>offset\<close> and \<^verbatim>\<open>size\<close> carry the prefix \<open>mcin_\<close> (\<open>size\<close> is a constant of HOL, and
  \<open>offset\<close> is also a field of \<^verbatim>\<open>OffsetFixData\<close>).
\<close>

record MCIN =
  mcin_offset :: UInt32
  mcin_size :: UInt32
  temp1 :: UInt32
  temp2 :: UInt32

text \<open>
  \<^verbatim>\<open>struct OffsetFixData { Offsets offset; UInt32 offsetMDDF, offsetMODF;
  UInt32 positionsMCNK[256]; MCIN positions[256]; }\<close>
\<close>

record OffsetFixData =
  offset :: Offsets
  offsetMDDF :: UInt32
  offsetMODF :: UInt32
  positionsMCNK :: "UInt32 array256"
  positions :: "MCIN array256"

definition Offsets_zero :: Offsets where
  "Offsets_zero = \<lparr>offs_x = 0, offs_y = 0, xf = 0, zf = 0, zOff = 0,
                    wdtXOff = 0, wdtYOff = 0, wdtZOff = 0\<rparr>"

definition MCIN_zero :: MCIN where
  "MCIN_zero = \<lparr>mcin_offset = 0, mcin_size = 0, temp1 = 0, temp2 = 0\<rparr>"

text \<open>\<^verbatim>\<open>OffsetFixData offData = {};\<close> (main.cpp, line 17): value-initialisation, every member zero.\<close>

definition offData_init :: OffsetFixData where
  "offData_init = \<lparr>offset = Offsets_zero, offsetMDDF = 0, offsetMODF = 0,
                    positionsMCNK = a256_fill 0, positions = a256_fill MCIN_zero\<rparr>"

section \<open>The five steps of the repair pass\<close>

text \<open>
  offsetFix.h declares \<^verbatim>\<open>void findMCNKs(std::fstream&, OffsetFixData&)\<close> and its four
  siblings; their bodies are not part of the sources. A step is therefore a parameter: it
  receives the bytes of the open file and the repair state, both by reference, and leaves
  the bytes of the file, the repair state, and possibly a thrown \<^verbatim>\<open>std::exception\<close>
  (its \<^verbatim>\<open>what()\<close> text). A step that throws half-way has still written what it wrote.
\<close>

type_synonym step = "byte list \<Rightarrow> OffsetFixData \<Rightarrow> byte list \<times> OffsetFixData \<times> string option"

record steps =
  findMCNKs :: step
  findMDDFandMODF :: step
  fixMCNKs :: step
  fixDoodads :: step
  fixWMOs :: step

datatype step_name = FindMCNKs | FindMDDFandMODF | FixMCNKs | FixDoodads | FixWMOs

text \<open>
  The state while the \<^verbatim>\<open>try\<close> block of main runs: the file behind \<^verbatim>\<open>zoneFile\<close>, the
  local \<^verbatim>\<open>offData\<close>, the exception in flight, and a log of the calls made so far, each
  with the \<^verbatim>\<open>offset\<close> member the callee was handed.
\<close>

record pass_state =
  zoneFile :: "byte list"
  offData :: OffsetFixData
  thrown :: "string option"
  calls :: "(step_name \<times> Offsets) list"

text \<open>One statement of the \<^verbatim>\<open>try\<close> block: skipped once an exception is in flight.\<close>

definition call :: "step_name \<Rightarrow> step \<Rightarrow> pass_state \<Rightarrow> pass_state" where
  "call n g s =
     (case thrown s of
        Some e \<Rightarrow> s
      | None \<Rightarrow>
          (case g (zoneFile s) (offData s) of
             (f', d', e') \<Rightarrow>
               \<lparr>zoneFile = f', offData = d', thrown = e',
                calls = calls s @ [(n, offset (offData s))]\<rparr>))"

text \<open>main.cpp, lines 21-26: the five calls, in the order of the source.\<close>

definition try_block :: "steps \<Rightarrow> byte list \<Rightarrow> OffsetFixData \<Rightarrow> pass_state" where
  "try_block st f d =
     (let s0 = \<lparr>zoneFile = f, offData = d, thrown = None, calls = []\<rparr>;
          s1 = call FindMCNKs (findMCNKs st) s0;
          s2 = call FindMDDFandMODF (findMDDFandMODF st) s1;
          s3 = call FixMCNKs (fixMCNKs st) s2;
          s4 = call FixDoodads (fixDoodads st) s3;
          s5 = call FixWMOs (fixWMOs st) s4
      in s5)"

definition pass_order :: "step_name list" where
  "pass_order = [FindMCNKs, FindMDDFandMODF, FixMCNKs, FixDoodads, FixWMOs]"

section \<open>Files and streams\<close>

text \<open>
  The files the process sees. A path names a file, and two paths may name the same file
  (\<^verbatim>\<open>tile.adt\<close> and \<^verbatim>\<open>./tile.adt\<close>, a link): \<open>names\<close> gives the file behind a path, also
  for a path whose file does not exist yet. \<open>files\<close> holds the bytes of the files that
  exist, and \<open>denied\<close> the paths that cannot be opened for writing (no permission, no such
  directory).
\<close>

record filesys =
  names :: "string \<Rightarrow> nat"
  files :: "nat \<Rightarrow> byte list option"
  denied :: "string \<Rightarrow> bool"

definition content :: "filesys \<Rightarrow> string \<Rightarrow> byte list option" where
  "content fs p = files fs (names fs p)"

definition store :: "filesys \<Rightarrow> string \<Rightarrow> byte list \<Rightarrow> filesys" where
  "store fs p b = fs\<lparr>files := (files fs)(names fs p \<mapsto> b)\<rparr>"

text \<open>\<^verbatim>\<open>std::fstream(p, in | out | binary)\<close>: the file must exist and be writable.\<close>

definition open_in_out :: "filesys \<Rightarrow> string \<Rightarrow> byte list option" where
  "open_in_out fs p = (if denied fs p then None else content fs p)"

text \<open>\<^verbatim>\<open>std::ofstream(p, binary)\<close>: creates the file, or truncates it to length 0.\<close>

definition open_ofstream :: "filesys \<Rightarrow> string \<Rightarrow> filesys option" where
  "open_ofstream fs p = (if denied fs p then None else Some (store fs p []))"

text \<open>\<^verbatim>\<open>std::ifstream(p, binary)\<close> and \<^verbatim>\<open>rdbuf()\<close>: all bytes of the file; none if it is not there.\<close>

definition read_rdbuf :: "filesys \<Rightarrow> string \<Rightarrow> byte list" where
  "read_rdbuf fs p = (case content fs p of None \<Rightarrow> [] | Some b \<Rightarrow> b)"

section \<open>main of the repair tool (tools/offsetFix\_msvc/main.cpp)\<close>

record outcome =
  exit_code :: int
  cerr :: string
  cout :: string
  disk :: filesys
  trace :: "(step_name \<times> Offsets) list"

definition nl :: string where
  "nl = [CHR 0x0A]"

definition usage :: string where
  "usage = ''Usage: offsetFix <input.wdt> <output.wdt>'' @ nl"

text \<open>
  \<open>argv\<close> is the argument vector with the program name first, so \<^verbatim>\<open>argc\<close> is its length.
  What the steps write goes through \<^verbatim>\<open>zoneFile\<close> to the input file itself; the stream is
  closed (by \<^verbatim>\<open>close()\<close> on line 33, or by its destructor on \<^verbatim>\<open>return 1\<close>), so the file
  then holds the bytes the steps left.
\<close>

definition offsetFix_main :: "steps \<Rightarrow> string list \<Rightarrow> filesys \<Rightarrow> outcome" where
  "offsetFix_main st argv fs =
     (if length argv < 3 then
        \<lparr>exit_code = 1, cerr = usage, cout = [], disk = fs, trace = []\<rparr>
      else
        (case open_in_out fs (argv ! 1) of
           None \<Rightarrow>
             \<lparr>exit_code = 1, cerr = ''Error opening file: '' @ argv ! 1 @ nl, cout = [],
              disk = fs, trace = []\<rparr>
         | Some bytes \<Rightarrow>
             (let s = try_block st bytes offData_init;
                  fs1 = store fs (argv ! 1) (zoneFile s)
              in case thrown s of
                   Some what \<Rightarrow>
                     \<lparr>exit_code = 1, cerr = ''Error processing file: '' @ what @ nl,
                      cout = [], disk = fs1, trace = calls s\<rparr>
                 | None \<Rightarrow>
                     (case open_ofstream fs1 (argv ! 2) of
                        None \<Rightarrow>
                          \<lparr>exit_code = 1,
                           cerr = ''Error creating output file: '' @ argv ! 2 @ nl,
                           cout = [], disk = fs1, trace = calls s\<rparr>
                      | Some fs2 \<Rightarrow>
                          \<lparr>exit_code = 0, cerr = [],
                           cout = ''Successfully processed '' @ argv ! 1 @ nl @
                                  ''Output saved to '' @ argv ! 2 @ nl,
                           disk = store fs2 (argv ! 2) (read_rdbuf fs2 (argv ! 1)),
                           trace = calls s\<rparr>))))"

text \<open>
  Stand-ins for the absent steps, used only where a theorem is run on a concrete input.
  \<open>noop_step\<close> does nothing. \<open>marking_step k fail\<close> appends the byte \<open>k\<close> to the file, sets
  \<^verbatim>\<open>offsetMDDF\<close> to \<open>k\<close>, and then throws if \<open>fail\<close> is set; in \<open>marking_steps n\<close> the five
  steps append 1 to 5 and the \<open>n\<close>-th throws (none for \<open>n = 0\<close>).
\<close>

definition noop_step :: step where
  "noop_step f d = (f, d, None)"

definition noop_steps :: steps where
  "noop_steps = \<lparr>findMCNKs = noop_step, findMDDFandMODF = noop_step, fixMCNKs = noop_step,
                  fixDoodads = noop_step, fixWMOs = noop_step\<rparr>"

definition marking_step :: "byte \<Rightarrow> bool \<Rightarrow> step" where
  "marking_step k fail f d =
     (f @ [k], d\<lparr>offsetMDDF := ucast k\<rparr>, if fail then Some ''TruncatedChunk'' else None)"

definition marking_steps :: "nat \<Rightarrow> steps" where
  "marking_steps n =
     \<lparr>findMCNKs = marking_step 1 (n = 1), findMDDFandMODF = marking_step 2 (n = 2),
      fixMCNKs = marking_step 3 (n = 3), fixDoodads = marking_step 4 (n = 4),
      fixWMOs = marking_step 5 (n = 5)\<rparr>"

text \<open>
  A disk with one three-byte file, reachable under two names, and one path that cannot be
  written.
\<close>

definition disk0 :: filesys where
  "disk0 =
     \<lparr>names = (\<lambda>p. if p = ''tile.adt'' \<or> p = ''./tile.adt'' then 0
                    else if p = ''out.adt'' then 1
                    else if p = ''again.adt'' then 2
                    else if p = ''locked.adt'' then 3 else 4),
      files = [0 \<mapsto> [1, 2, 3]],
      denied = (\<lambda>p. p = ''locked.adt'')\<rparr>"

text \<open>
  A step keeps the \<^verbatim>\<open>offset\<close> member when it never assigns it; a step is neutral at a zero
  offset when, handed a repair state whose \<^verbatim>\<open>offset\<close> member is all zero, it leaves the
  file as it is (a translation by a zero delta).
\<close>

definition keeps_offset :: "step \<Rightarrow> bool" where
  "keeps_offset g = (\<forall>f d. offset (fst (snd (g f d))) = offset d)"

definition neutral_at_zero :: "step \<Rightarrow> bool" where
  "neutral_at_zero g = (\<forall>f d. offset d = Offsets_zero \<longrightarrow> fst (g f d) = f)"

text \<open>
  Steps of that kind: \<^verbatim>\<open>fixMCNKs\<close> patches the first byte, \<^verbatim>\<open>fixDoodads\<close> and \<^verbatim>\<open>fixWMOs\<close>
  add the first member of \<^verbatim>\<open>offset\<close> to every byte.
\<close>

definition writing_step :: step where
  "writing_step f d = (f[0 := 0xFF], d, None)"

definition shifting_step :: step where
  "shifting_step f d = (map (\<lambda>b. b + ucast (offs_x (offset d))) f, d, None)"

definition shifting_steps :: steps where
  "shifting_steps = \<lparr>findMCNKs = noop_step, findMDDFandMODF = noop_step,
                      fixMCNKs = writing_step, fixDoodads = shifting_step,
                      fixWMOs = shifting_step\<rparr>"

section \<open>main of the converter (tools/fixes/main.cpp)\<close>

text \<open>
  The classes of \<^verbatim>\<open>wowfiles\<close> (WdtAlpha, Wdt, AdtAlpha, AdtLk) are not part of the sources;
  main only calls them. What main reads from the constructed \<^verbatim>\<open>WdtAlpha\<close> is kept as a
  record: the offsets of the legacy table (\<^verbatim>\<open>getAdtOffsetsInMain()\<close>, a \<^verbatim>\<open>std::vector<int>\<close>)
  and the two lists of model names.
\<close>

text \<open>The error kinds of the design (section 7 of the spec).\<close>

datatype error =
  TruncatedChunk | UnknownChunkTag | DanglingNameIndex | MissingExpectedChunk | OffsetOutOfRange

record WdtAlpha =
  adtOffsetsInMain :: "int list"
  mdnmFileNames :: "string list"
  monmFileNames :: "string list"

text \<open>
  Modelled from the spec: \<^verbatim>\<open>WdtAlpha::getExistingAdtsNumbers()\<close>, whose body is missing. The
  legacy table holds one offset per tile, "0 meaning tile absent" (section 6), and the
  existing tiles are listed by their linear number \<open>row * 64 + col\<close> (sections 4.3 and 9),
  in table order.
\<close>

definition getExistingAdtsNumbers :: "WdtAlpha \<Rightarrow> int list" where
  "getExistingAdtsNumbers w =
     map int (filter (\<lambda>n. adtOffsetsInMain w ! n \<noteq> 0) [0..<length (adtOffsetsInMain w)])"

text \<open>
  The rest of the library is a parameter: reading the legacy world table (the constructor
  \<^verbatim>\<open>WdtAlpha(wdtName)\<close>), and converting one tile (the constructor \<^verbatim>\<open>AdtAlpha(wdtName,
  offset, number)\<close> followed by \<^verbatim>\<open>toAdtLk(mdnmNames, monmNames)\<close>). Either may throw; main
  catches nothing, so a throw ends the process at once.
\<close>

record wowfiles =
  loadWdtAlpha :: "string \<Rightarrow> error + WdtAlpha"
  convertAdt :: "string \<Rightarrow> int \<Rightarrow> int \<Rightarrow> string list \<Rightarrow> string list \<Rightarrow> error option"

text \<open>The files written by \<^verbatim>\<open>toFile()\<close>: the world table, or the area file of a tile number.\<close>

datatype out_file = WdtFile | AdtFile int

datatype status = Exited int | Terminated

text \<open>
  main.cpp, lines 36-41: the loop over \<^verbatim>\<open>adtsNums\<close>. \<^verbatim>\<open>adtsOffsets[adtsNums[currentAdt]]\<close>
  is an unchecked vector access; out of range the behaviour is undefined, and the model
  stops there.
\<close>

fun convert_adts ::
  "wowfiles \<Rightarrow> string \<Rightarrow> int list \<Rightarrow> string list \<Rightarrow> string list \<Rightarrow> int list \<Rightarrow> out_file list
     \<Rightarrow> status \<times> out_file list" where
  "convert_adts lib wdtName adtsOffsets mdnmNames monmNames [] written = (Exited 0, written)"
| "convert_adts lib wdtName adtsOffsets mdnmNames monmNames (n # ns) written =
     (if n < 0 \<or> int (length adtsOffsets) \<le> n then (Terminated, written)
      else
        (case convertAdt lib wdtName (adtsOffsets ! nat n) n mdnmNames monmNames of
           Some e \<Rightarrow> (Terminated, written)
         | None \<Rightarrow>
             convert_adts lib wdtName adtsOffsets mdnmNames monmNames ns (written @ [AdtFile n])))"

definition fixes_main :: "wowfiles \<Rightarrow> string list \<Rightarrow> status \<times> out_file list" where
  "fixes_main lib argv =
     (if length argv < 2 then (Exited 1, [])
      else
        (let wdtName = argv ! 1 in
         case loadWdtAlpha lib wdtName of
           Inl e \<Rightarrow> (Terminated, [])
         | Inr testWdtAlpha \<Rightarrow>
             convert_adts lib wdtName (adtOffsetsInMain testWdtAlpha)
               (mdnmFileNames testWdtAlpha) (monmFileNames testWdtAlpha)
               (getExistingAdtsNumbers testWdtAlpha) [WdtFile]))"

text \<open>A legacy table of six tiles, of which tiles 1 and 3 exist, and a library that never throws.\<close>

definition legacy6 :: WdtAlpha where
  "legacy6 = \<lparr>adtOffsetsInMain = [0, 5120, 0, 9216, 0, 0], mdnmFileNames = [], monmFileNames = []\<rparr>"

definition lib6 :: wowfiles where
  "lib6 = \<lparr>loadWdtAlpha = (\<lambda>p. Inr legacy6), convertAdt = (\<lambda>p off n md mo. None)\<rparr>"

section \<open>Chunks, the index on disk, and the repair steps as the spec describes them\<close>

text \<open>A 32-bit field of a file: four bytes, least significant first (spec, section 4.1).\<close>

definition le32 :: "UInt32 \<Rightarrow> byte list" where
  "le32 w = [ucast w, ucast (drop_bit 8 w), ucast (drop_bit 16 w), ucast (drop_bit 24 w)]"

definition from_le32 :: "byte list \<Rightarrow> UInt32" where
  "from_le32 bs = foldr (\<lambda>b w. or (ucast b) (push_bit 8 w)) (take 4 bs) 0"

text \<open>
  The bytes of one \<^verbatim>\<open>MCIN\<close> entry, field after field as the struct declares them: "256
  entries of {uint32 offset, uint32 size, uint32 reserved, uint32 reserved}" (spec,
  section 6). \<^verbatim>\<open>temp1\<close> and \<^verbatim>\<open>temp2\<close> are the two reserved fields.
\<close>

definition MCIN_bytes :: "MCIN \<Rightarrow> byte list" where
  "MCIN_bytes e = le32 (mcin_offset e) @ le32 (mcin_size e) @ le32 (temp1 e) @ le32 (temp2 e)"

definition MCIN_of_bytes :: "byte list \<Rightarrow> MCIN" where
  "MCIN_of_bytes bs =
     \<lparr>mcin_offset = from_le32 (take 4 bs), mcin_size = from_le32 (take 4 (drop 4 bs)),
      temp1 = from_le32 (take 4 (drop 8 bs)), temp2 = from_le32 (take 4 (drop 12 bs))\<rparr>"

definition index_payload :: "MCIN array256 \<Rightarrow> byte list" where
  "index_payload a = concat (map MCIN_bytes (a256_list a))"

text \<open>
  Modelled from the spec: the chunk reader of section 4.1, which is not in the sources. A
  chunk is a 4-byte tag, a 32-bit payload length, and that many bytes of payload;
  \<open>read_chunk\<close> "fails with TruncatedChunk if fewer than 8 bytes remain for the header, or
  fewer than length bytes remain for the payload".
\<close>

record chunk =
  ctag :: "byte list"
  cpos :: nat
  clen :: nat

definition read_chunk :: "byte list \<Rightarrow> nat \<Rightarrow> error + (chunk \<times> nat)" where
  "read_chunk buf p =
     (if length buf < p + 8 then Inl TruncatedChunk
      else
        (let len = unat (from_le32 (take 4 (drop (p + 4) buf))) in
         if length buf < p + 8 + len then Inl TruncatedChunk
         else Inr (\<lparr>ctag = take 4 (drop p buf), cpos = p, clen = len\<rparr>, p + 8 + len)))"

text \<open>
  Modelled from the spec: the scan of section 4.2, which "walks the buffer top to bottom",
  chunk after chunk, from position \<open>p\<close> to the end of the buffer.
\<close>

function scan :: "byte list \<Rightarrow> nat \<Rightarrow> error + chunk list" where
  "scan buf p =
     (if length buf \<le> p then Inr []
      else
        (case read_chunk buf p of
           Inl e \<Rightarrow> Inl e
         | Inr (c, p') \<Rightarrow>
             (case scan buf p' of
                Inl e \<Rightarrow> Inl e
              | Inr cs \<Rightarrow> Inr (c # cs))))"
  by pat_completeness auto
termination
  by (relation "measure (\<lambda>(buf, p). length buf - p)")
    (auto simp: read_chunk_def Let_def split: if_splits)

text \<open>The tags, as the letters of the names in offsetFix.h.\<close>

definition tag_MCIN :: "byte list" where "tag_MCIN = [0x4D, 0x43, 0x49, 0x4E]"
definition tag_MCNK :: "byte list" where "tag_MCNK = [0x4D, 0x43, 0x4E, 0x4B]"
definition tag_MDDF :: "byte list" where "tag_MDDF = [0x4D, 0x44, 0x44, 0x46]"
definition tag_MODF :: "byte list" where "tag_MODF = [0x4D, 0x4F, 0x44, 0x46]"

text \<open>The \<^verbatim>\<open>what()\<close> of the exception a step throws for an error kind.\<close>

fun what :: "error \<Rightarrow> string" where
  "what TruncatedChunk = ''TruncatedChunk''"
| "what UnknownChunkTag = ''UnknownChunkTag''"
| "what DanglingNameIndex = ''DanglingNameIndex''"
| "what MissingExpectedChunk = ''MissingExpectedChunk''"
| "what OffsetOutOfRange = ''OffsetOutOfRange''"

text \<open>
  Writing \<open>bs\<close> at position \<open>p\<close> of a file through a stream: bytes are replaced, and the
  file grows (zero-filled up to \<open>p\<close>) when the write reaches past its end.
\<close>

definition write_at :: "byte list \<Rightarrow> nat \<Rightarrow> byte list \<Rightarrow> byte list" where
  "write_at f p bs = take p (f @ replicate (p - length f) 0) @ bs @ drop (p + length bs) f"

text \<open>
  Modelled from the spec: \<^verbatim>\<open>findMCNKs\<close>, step (1) of section 4.5 with section 4.2: it
  "records offset/size for every terrain-chunk tag encountered, keyed by encounter order",
  in the table of 256 entries ("up to 256 entries"; further terrain chunks find no slot).
  The offset of a chunk is the position of its header, its size the declared length
  (section 3).
\<close>

fun record_MCNKs :: "chunk list \<Rightarrow> nat \<Rightarrow> OffsetFixData \<Rightarrow> OffsetFixData" where
  "record_MCNKs [] i d = d"
| "record_MCNKs (c # cs) i d =
     record_MCNKs cs (Suc i)
       (d\<lparr>positionsMCNK := a256_set (positionsMCNK d) i (of_nat (cpos c)),
          positions := a256_set (positions d) i
             ((a256_get (positions d) i)\<lparr>mcin_offset := of_nat (cpos c),
                                          mcin_size := of_nat (clen c)\<rparr>)\<rparr>)"

definition spec_findMCNKs :: step where
  "spec_findMCNKs f d =
     (case scan f 0 of
        Inl e \<Rightarrow> (f, d, Some (what e))
      | Inr cs \<Rightarrow> (f, record_MCNKs (take 256 (filter (\<lambda>c. ctag c = tag_MCNK) cs)) 0 d, None))"

text \<open>
  Modelled from the spec: \<^verbatim>\<open>findMDDFandMODF\<close>, step (2) of section 4.5: it scans "for the
  doodad-placement and object-placement chunks by tag" and records their offsets; the pass
  "fails with MissingExpectedChunk if a mandatory chunk (index, placement lists) is absent".
\<close>

definition spec_findMDDFandMODF :: step where
  "spec_findMDDFandMODF f d =
     (case scan f 0 of
        Inl e \<Rightarrow> (f, d, Some (what e))
      | Inr cs \<Rightarrow>
          (case (find (\<lambda>c. ctag c = tag_MDDF) cs, find (\<lambda>c. ctag c = tag_MODF) cs) of
             (Some a, Some b) \<Rightarrow>
               (f, d\<lparr>offsetMDDF := of_nat (cpos a), offsetMODF := of_nat (cpos b)\<rparr>, None)
           | _ \<Rightarrow> (f, d, Some (what MissingExpectedChunk))))"

text \<open>
  Modelled from the spec: \<^verbatim>\<open>fixMCNKs\<close>, step (4) of section 4.5 with \<open>rewrite_into\<close> of
  section 4.2, which "writes the 256 (offset,size) pairs back into the index chunk's
  fixed-size payload" of 4096 bytes, 16 bytes an entry; the two reserved fields of an entry
  are not written. The index chunk is the first chunk tagged MCIN with a payload of that
  size.
\<close>

fun rewrite_into :: "byte list \<Rightarrow> nat \<Rightarrow> MCIN list \<Rightarrow> byte list" where
  "rewrite_into f p [] = f"
| "rewrite_into f p (e # es) =
     rewrite_into (write_at f p (le32 (mcin_offset e) @ le32 (mcin_size e))) (p + 16) es"

definition index_chunk :: "chunk list \<Rightarrow> chunk option" where
  "index_chunk cs = find (\<lambda>c. ctag c = tag_MCIN \<and> clen c = 4096) cs"

definition spec_fixMCNKs :: step where
  "spec_fixMCNKs f d =
     (case scan f 0 of
        Inl e \<Rightarrow> (f, d, Some (what e))
      | Inr cs \<Rightarrow>
          (case index_chunk cs of
             None \<Rightarrow> (f, d, Some (what MissingExpectedChunk))
           | Some c \<Rightarrow> (rewrite_into f (cpos c + 8) (a256_list (positions d)), d, None)))"

text \<open>
  Modelled from the spec: \<^verbatim>\<open>fixDoodads\<close> and \<^verbatim>\<open>fixWMOs\<close>, step (3) of section 4.5: "compute
  a coordinate delta if the file's declared origin offset changed, and add that delta to
  every placement record's position field". A placement record is nameIndex (4 bytes),
  position (3 floats), rotation (3 floats), then scale (doodad) or bounding box (object),
  uniqueId and flags (section 3): 38 bytes for a doodad, 58 for an object, tightly packed.
  The origin offset is unchanged when the \<^verbatim>\<open>offset\<close> member is all zero. How the delta is
  derived from the members, and the addition of floats, are parameters.
\<close>

record float_ops =
  fadd :: "UInt32 \<Rightarrow> UInt32 \<Rightarrow> UInt32"
  delta_of :: "Offsets \<Rightarrow> UInt32 list"

definition translate_field :: "float_ops \<Rightarrow> UInt32 \<Rightarrow> byte list \<Rightarrow> nat \<Rightarrow> byte list" where
  "translate_field fo dl f p = write_at f p (le32 (fadd fo (from_le32 (take 4 (drop p f))) dl))"

definition translate_position :: "float_ops \<Rightarrow> UInt32 list \<Rightarrow> byte list \<Rightarrow> nat \<Rightarrow> byte list" where
  "translate_position fo dl f p =
     translate_field fo (dl ! 2) (translate_field fo (dl ! 1) (translate_field fo (dl ! 0) f p)
       (p + 4)) (p + 8)"

fun translate_records ::
  "float_ops \<Rightarrow> UInt32 list \<Rightarrow> nat \<Rightarrow> byte list \<Rightarrow> nat \<Rightarrow> nat \<Rightarrow> byte list" where
  "translate_records fo dl rs f p 0 = f"
| "translate_records fo dl rs f p (Suc n) =
     translate_records fo dl rs (translate_position fo dl f (p + 4)) (p + rs) n"

definition translate_chunk :: "float_ops \<Rightarrow> nat \<Rightarrow> UInt32 \<Rightarrow> step" where
  "translate_chunk fo rs at f d =
     (if offset d = Offsets_zero then (f, d, None)
      else
        (case read_chunk f (unat at) of
           Inl e \<Rightarrow> (f, d, Some (what e))
         | Inr (c, p') \<Rightarrow>
             (translate_records fo (delta_of fo (offset d)) rs f (cpos c + 8) (clen c div rs),
              d, None)))"

definition spec_fixDoodads :: "float_ops \<Rightarrow> step" where
  "spec_fixDoodads fo f d = translate_chunk fo 38 (offsetMDDF d) f d"

definition spec_fixWMOs :: "float_ops \<Rightarrow> step" where
  "spec_fixWMOs fo f d = translate_chunk fo 58 (offsetMODF d) f d"

definition spec_steps :: "float_ops \<Rightarrow> steps" where
  "spec_steps fo = \<lparr>findMCNKs = spec_findMCNKs, findMDDFandMODF = spec_findMDDFandMODF,
                     fixMCNKs = spec_fixMCNKs, fixDoodads = spec_fixDoodads fo,
                     fixWMOs = spec_fixWMOs fo\<rparr>"

text \<open>The eight bytes \<open>rewrite_into\<close> writes for an entry: its (offset, size) pair.\<close>

definition pair_bytes :: "MCIN \<Rightarrow> byte list" where
  "pair_bytes e = le32 (mcin_offset e) @ le32 (mcin_size e)"

text \<open>The table \<^verbatim>\<open>findMCNKs\<close> leaves in \<^verbatim>\<open>positions\<close> when main calls it on the chunks \<open>cs\<close>.\<close>

definition rebuilt_index :: "chunk list \<Rightarrow> MCIN list" where
  "rebuilt_index cs =
     a256_list (positions (record_MCNKs (take 256 (filter (\<lambda>c. ctag c = tag_MCNK) cs)) 0 offData_init))"

text \<open>
  A sample tile: an index chunk whose 4096 payload bytes are all 0xFF, a doodad chunk with
  one 38-byte record, an empty object chunk and one terrain chunk of four bytes; a disk that
  holds it under \<^verbatim>\<open>tile.adt\<close>; and float operations to run the steps with.
\<close>

definition tile0 :: "byte list" where
  "tile0 = tag_MCIN @ le32 4096 @ replicate 4096 0xFF @ tag_MDDF @ le32 38 @ replicate 38 7 @
           tag_MODF @ le32 0 @ tag_MCNK @ le32 4 @ [1, 2, 3, 4]"

definition disk1 :: filesys where
  "disk1 = disk0\<lparr>files := [0 \<mapsto> tile0]\<rparr>"

definition sample_float_ops :: float_ops where
  "sample_float_ops = \<lparr>fadd = (\<lambda>a b. a + b), delta_of = (\<lambda>off. [xf off, zOff off, zf off])\<rparr>"

section \<open>The repair tool: what main guarantees for any steps\<close>

subsection \<open>The try block is the five steps, one after the other\<close>

lemma try_block_throw1:
  "findMCNKs st f d = (f1, d1, Some w) \<Longrightarrow>
     try_block st f d = \<lparr>zoneFile = f1, offData = d1, thrown = Some w,
                           calls = [(FindMCNKs, offset d)]\<rparr>"
  by (simp add: try_block_def call_def)

lemma try_block_throw2:
  "findMCNKs st f d = (f1, d1, None) \<Longrightarrow> findMDDFandMODF st f1 d1 = (f2, d2, Some w) \<Longrightarrow>
     try_block st f d = \<lparr>zoneFile = f2, offData = d2, thrown = Some w,
                           calls = [(FindMCNKs, offset d), (FindMDDFandMODF, offset d1)]\<rparr>"
  by (simp add: try_block_def call_def)

lemma try_block_throw3:
  "findMCNKs st f d = (f1, d1, None) \<Longrightarrow> findMDDFandMODF st f1 d1 = (f2, d2, None) \<Longrightarrow>
   fixMCNKs st f2 d2 = (f3, d3, Some w) \<Longrightarrow>
     try_block st f d = \<lparr>zoneFile = f3, offData = d3, thrown = Some w,
                           calls = [(FindMCNKs, offset d), (FindMDDFandMODF, offset d1),
                                    (FixMCNKs, offset d2)]\<rparr>"
  by (simp add: try_block_def call_def)

lemma try_block_throw4:
  "findMCNKs st f d = (f1, d1, None) \<Longrightarrow> findMDDFandMODF st f1 d1 = (f2, d2, None) \<Longrightarrow>
   fixMCNKs st f2 d2 = (f3, d3, None) \<Longrightarrow> fixDoodads st f3 d3 = (f4, d4, Some w) \<Longrightarrow>
     try_block st f d = \<lparr>zoneFile = f4, offData = d4, thrown = Some w,
                           calls = [(FindMCNKs, offset d), (FindMDDFandMODF, offset d1),
                                    (FixMCNKs, offset d2), (FixDoodads, offset d3)]\<rparr>"
  by (simp add: try_block_def call_def)

lemma try_block_last:
  "findMCNKs st f d = (f1, d1, None) \<Longrightarrow> findMDDFandMODF st f1 d1 = (f2, d2, None) \<Longrightarrow>
   fixMCNKs st f2 d2 = (f3, d3, None) \<Longrightarrow> fixDoodads st f3 d3 = (f4, d4, None) \<Longrightarrow>
   fixWMOs st f4 d4 = (f5, d5, e) \<Longrightarrow>
     try_block st f d = \<lparr>zoneFile = f5, offData = d5, thrown = e,
                           calls = [(FindMCNKs, offset d), (FindMDDFandMODF, offset d1),
                                    (FixMCNKs, offset d2), (FixDoodads, offset d3),
                                    (FixWMOs, offset d4)]\<rparr>"
  by (simp add: try_block_def call_def)

subsection \<open>What main does with the outcome of the try block\<close>

lemma main_thrown:
  "3 \<le> length argv \<Longrightarrow> open_in_out fs (argv ! 1) = Some f \<Longrightarrow>
   try_block st f offData_init = s \<Longrightarrow> thrown s = Some w \<Longrightarrow>
     offsetFix_main st argv fs =
       \<lparr>exit_code = 1, cerr = ''Error processing file: '' @ w @ nl, cout = [],
        disk = store fs (argv ! 1) (zoneFile s), trace = calls s\<rparr>"
  by (auto simp: offsetFix_main_def Let_def)

lemma main_no_output:
  "3 \<le> length argv \<Longrightarrow> open_in_out fs (argv ! 1) = Some f \<Longrightarrow>
   try_block st f offData_init = s \<Longrightarrow> thrown s = None \<Longrightarrow> denied fs (argv ! 2) \<Longrightarrow>
     offsetFix_main st argv fs =
       \<lparr>exit_code = 1, cerr = ''Error creating output file: '' @ argv ! 2 @ nl, cout = [],
        disk = store fs (argv ! 1) (zoneFile s), trace = calls s\<rparr>"
  by (auto simp: offsetFix_main_def Let_def open_ofstream_def store_def)

lemma main_done:
  "3 \<le> length argv \<Longrightarrow> open_in_out fs (argv ! 1) = Some f \<Longrightarrow>
   try_block st f offData_init = s \<Longrightarrow> thrown s = None \<Longrightarrow> \<not> denied fs (argv ! 2) \<Longrightarrow>
     exit_code (offsetFix_main st argv fs) = 0 \<and> cerr (offsetFix_main st argv fs) = [] \<and>
     trace (offsetFix_main st argv fs) = calls s \<and>
     names (disk (offsetFix_main st argv fs)) = names fs \<and>
     denied (disk (offsetFix_main st argv fs)) = denied fs \<and>
     content (disk (offsetFix_main st argv fs)) (argv ! 2) =
       (if names fs (argv ! 2) = names fs (argv ! 1) then Some [] else Some (zoneFile s)) \<and>
     content (disk (offsetFix_main st argv fs)) (argv ! 1) =
       (if names fs (argv ! 2) = names fs (argv ! 1) then Some [] else Some (zoneFile s))"
  by (auto simp: offsetFix_main_def Let_def open_ofstream_def store_def read_rdbuf_def content_def)

lemma content_store [simp]: "content (store fs p b) p = Some b"
  by (simp add: content_def store_def)

lemma main_exit_0_iff:
  "exit_code (offsetFix_main st argv fs) = 0 \<longleftrightarrow>
     3 \<le> length argv \<and> \<not> denied fs (argv ! 2) \<and>
     (\<exists>f. open_in_out fs (argv ! 1) = Some f \<and> thrown (try_block st f offData_init) = None)"
  by (auto simp: offsetFix_main_def Let_def open_ofstream_def store_def split: option.splits)

text \<open>
  C2: in every repair invocation that opens its input, the steps run in the order of the
  source, each on the file and the repair state its predecessor left: first the scan for the
  terrain chunks (\<^verbatim>\<open>findMCNKs\<close>), then the scan for the two placement chunks
  (\<^verbatim>\<open>findMDDFandMODF\<close>), and only after both scans the steps that write back
  (\<^verbatim>\<open>fixMCNKs\<close>, \<^verbatim>\<open>fixDoodads\<close>, \<^verbatim>\<open>fixWMOs\<close>). A step that throws ends the pass: the
  calls made are those up to it, and the file holds what it left. When none throws, all five
  have run and the file holds what \<^verbatim>\<open>fixWMOs\<close> left.
\<close>

theorem repair_pass_order:
  assumes "3 \<le> length argv" and "open_in_out fs (argv ! 1) = Some f"
  shows
  "(\<forall>f1 d1 w.
        findMCNKs st f offData_init = (f1, d1, Some w) \<longrightarrow>
        trace (offsetFix_main st argv fs) = [(FindMCNKs, Offsets_zero)] \<and>
        content (disk (offsetFix_main st argv fs)) (argv ! 1) = Some f1) \<and>
   (\<forall>f1 d1 f2 d2 w.
        findMCNKs st f offData_init = (f1, d1, None) \<longrightarrow>
        findMDDFandMODF st f1 d1 = (f2, d2, Some w) \<longrightarrow>
        trace (offsetFix_main st argv fs) = [(FindMCNKs, Offsets_zero), (FindMDDFandMODF, offset d1)] \<and>
        content (disk (offsetFix_main st argv fs)) (argv ! 1) = Some f2) \<and>
   (\<forall>f1 d1 f2 d2 f3 d3 w.
        findMCNKs st f offData_init = (f1, d1, None) \<longrightarrow>
        findMDDFandMODF st f1 d1 = (f2, d2, None) \<longrightarrow>
        fixMCNKs st f2 d2 = (f3, d3, Some w) \<longrightarrow>
        trace (offsetFix_main st argv fs) = [(FindMCNKs, Offsets_zero), (FindMDDFandMODF, offset d1), (FixMCNKs, offset d2)] \<and>
        content (disk (offsetFix_main st argv fs)) (argv ! 1) = Some f3) \<and>
   (\<forall>f1 d1 f2 d2 f3 d3 f4 d4 w.
        findMCNKs st f offData_init = (f1, d1, None) \<longrightarrow>
        findMDDFandMODF st f1 d1 = (f2, d2, None) \<longrightarrow>
        fixMCNKs st f2 d2 = (f3, d3, None) \<longrightarrow>
        fixDoodads st f3 d3 = (f4, d4, Some w) \<longrightarrow>
        trace (offsetFix_main st argv fs) = [(FindMCNKs, Offsets_zero), (FindMDDFandMODF, offset d1), (FixMCNKs, offset d2), (FixDoodads, offset d3)] \<and>
        content (disk (offsetFix_main st argv fs)) (argv ! 1) = Some f4) \<and>
   (\<forall>f1 d1 f2 d2 f3 d3 f4 d4 f5 d5 w.
        findMCNKs st f offData_init = (f1, d1, None) \<longrightarrow>
        findMDDFandMODF st f1 d1 = (f2, d2, None) \<longrightarrow>
        fixMCNKs st f2 d2 = (f3, d3, None) \<longrightarrow>
        fixDoodads st f3 d3 = (f4, d4, None) \<longrightarrow>
        fixWMOs st f4 d4 = (f5, d5, Some w) \<longrightarrow>
        trace (offsetFix_main st argv fs) = [(FindMCNKs, Offsets_zero), (FindMDDFandMODF, offset d1), (FixMCNKs, offset d2), (FixDoodads, offset d3), (FixWMOs, offset d4)] \<and>
        content (disk (offsetFix_main st argv fs)) (argv ! 1) = Some f5) \<and>
   (\<forall>f1 d1 f2 d2 f3 d3 f4 d4 f5 d5.
        findMCNKs st f offData_init = (f1, d1, None) \<longrightarrow>
        findMDDFandMODF st f1 d1 = (f2, d2, None) \<longrightarrow>
        fixMCNKs st f2 d2 = (f3, d3, None) \<longrightarrow>
        fixDoodads st f3 d3 = (f4, d4, None) \<longrightarrow>
        fixWMOs st f4 d4 = (f5, d5, None) \<longrightarrow>
        trace (offsetFix_main st argv fs) = [(FindMCNKs, Offsets_zero), (FindMDDFandMODF, offset d1), (FixMCNKs, offset d2), (FixDoodads, offset d3), (FixWMOs, offset d4)] \<and>
        (denied fs (argv ! 2) \<or> names fs (argv ! 2) \<noteq> names fs (argv ! 1) \<longrightarrow>
           content (disk (offsetFix_main st argv fs)) (argv ! 1) = Some f5) \<and>
        (\<not> denied fs (argv ! 2) \<and> names fs (argv ! 2) \<noteq> names fs (argv ! 1) \<longrightarrow>
           content (disk (offsetFix_main st argv fs)) (argv ! 2) = Some f5))"
  using assms
  by (auto simp: offsetFix_main_def Let_def try_block_def call_def open_ofstream_def store_def
      content_def read_rdbuf_def offData_init_def)

text \<open>
  C5: a repair invocation (input and output path given) that hits a fatal error exits with a
  non-zero status and prints the error to the standard error stream: the input file cannot
  be opened; one of the five steps throws (truncated chunk, missing expected chunk, offset
  out of range), whichever step it is; the output file cannot be created. When every step
  returns and the output file can be created, it exits with 0 and prints nothing there.
\<close>

theorem repair_exit_status:
  assumes "3 \<le> length argv"
  shows
  "(open_in_out fs (argv ! 1) = None \<longrightarrow>
        exit_code (offsetFix_main st argv fs) \<noteq> 0 \<and>
        cerr (offsetFix_main st argv fs) = ''Error opening file: '' @ argv ! 1 @ nl) \<and>
   (\<forall>f f1 d1 w.
        open_in_out fs (argv ! 1) = Some f \<longrightarrow>
        findMCNKs st f offData_init = (f1, d1, Some w) \<longrightarrow>
        exit_code (offsetFix_main st argv fs) \<noteq> 0 \<and>
        cerr (offsetFix_main st argv fs) = ''Error processing file: '' @ w @ nl) \<and>
   (\<forall>f f1 d1 f2 d2 w.
        open_in_out fs (argv ! 1) = Some f \<longrightarrow>
        findMCNKs st f offData_init = (f1, d1, None) \<longrightarrow>
        findMDDFandMODF st f1 d1 = (f2, d2, Some w) \<longrightarrow>
        exit_code (offsetFix_main st argv fs) \<noteq> 0 \<and>
        cerr (offsetFix_main st argv fs) = ''Error processing file: '' @ w @ nl) \<and>
   (\<forall>f f1 d1 f2 d2 f3 d3 w.
        open_in_out fs (argv ! 1) = Some f \<longrightarrow>
        findMCNKs st f offData_init = (f1, d1, None) \<longrightarrow>
        findMDDFandMODF st f1 d1 = (f2, d2, None) \<longrightarrow>
        fixMCNKs st f2 d2 = (f3, d3, Some w) \<longrightarrow>
        exit_code (offsetFix_main st argv fs) \<noteq> 0 \<and>
        cerr (offsetFix_main st argv fs) = ''Error processing file: '' @ w @ nl) \<and>
   (\<forall>f f1 d1 f2 d2 f3 d3 f4 d4 w.
        open_in_out fs (argv ! 1) = Some f \<longrightarrow>
        findMCNKs st f offData_init = (f1, d1, None) \<longrightarrow>
        findMDDFandMODF st f1 d1 = (f2, d2, None) \<longrightarrow>
        fixMCNKs st f2 d2 = (f3, d3, None) \<longrightarrow>
        fixDoodads st f3 d3 = (f4, d4, Some w) \<longrightarrow>
        exit_code (offsetFix_main st argv fs) \<noteq> 0 \<and>
        cerr (offsetFix_main st argv fs) = ''Error processing file: '' @ w @ nl) \<and>
   (\<forall>f f1 d1 f2 d2 f3 d3 f4 d4 f5 d5 w.
        open_in_out fs (argv ! 1) = Some f \<longrightarrow>
        findMCNKs st f offData_init = (f1, d1, None) \<longrightarrow>
        findMDDFandMODF st f1 d1 = (f2, d2, None) \<longrightarrow>
        fixMCNKs st f2 d2 = (f3, d3, None) \<longrightarrow>
        fixDoodads st f3 d3 = (f4, d4, None) \<longrightarrow>
        fixWMOs st f4 d4 = (f5, d5, Some w) \<longrightarrow>
        exit_code (offsetFix_main st argv fs) \<noteq> 0 \<and>
        cerr (offsetFix_main st argv fs) = ''Error processing file: '' @ w @ nl) \<and>
   (\<forall>f f1 d1 f2 d2 f3 d3 f4 d4 f5 d5.
        open_in_out fs (argv ! 1) = Some f \<longrightarrow>
        findMCNKs st f offData_init = (f1, d1, None) \<longrightarrow>
        findMDDFandMODF st f1 d1 = (f2, d2, None) \<longrightarrow>
        fixMCNKs st f2 d2 = (f3, d3, None) \<longrightarrow>
        fixDoodads st f3 d3 = (f4, d4, None) \<longrightarrow>
        fixWMOs st f4 d4 = (f5, d5, None) \<longrightarrow>
        denied fs (argv ! 2) \<longrightarrow>
        exit_code (offsetFix_main st argv fs) \<noteq> 0 \<and>
        cerr (offsetFix_main st argv fs) = ''Error creating output file: '' @ argv ! 2 @ nl) \<and>
   (\<forall>f f1 d1 f2 d2 f3 d3 f4 d4 f5 d5.
        open_in_out fs (argv ! 1) = Some f \<longrightarrow>
        findMCNKs st f offData_init = (f1, d1, None) \<longrightarrow>
        findMDDFandMODF st f1 d1 = (f2, d2, None) \<longrightarrow>
        fixMCNKs st f2 d2 = (f3, d3, None) \<longrightarrow>
        fixDoodads st f3 d3 = (f4, d4, None) \<longrightarrow>
        fixWMOs st f4 d4 = (f5, d5, None) \<longrightarrow>
        \<not> denied fs (argv ! 2) \<longrightarrow>
        exit_code (offsetFix_main st argv fs) = 0 \<and> cerr (offsetFix_main st argv fs) = [])"
  using assms
  by (auto simp: offsetFix_main_def Let_def try_block_def call_def open_ofstream_def store_def
      content_def read_rdbuf_def offData_init_def)

lemma marking:
  "findMCNKs (marking_steps n) f d =
     (f @ [1], d\<lparr>offsetMDDF := 1\<rparr>, if n = 1 then Some ''TruncatedChunk'' else None)"
  "findMDDFandMODF (marking_steps n) f d =
     (f @ [2], d\<lparr>offsetMDDF := 2\<rparr>, if n = 2 then Some ''TruncatedChunk'' else None)"
  "fixMCNKs (marking_steps n) f d =
     (f @ [3], d\<lparr>offsetMDDF := 3\<rparr>, if n = 3 then Some ''TruncatedChunk'' else None)"
  "fixDoodads (marking_steps n) f d =
     (f @ [4], d\<lparr>offsetMDDF := 4\<rparr>, if n = 4 then Some ''TruncatedChunk'' else None)"
  "fixWMOs (marking_steps n) f d =
     (f @ [5], d\<lparr>offsetMDDF := 5\<rparr>, if n = 5 then Some ''TruncatedChunk'' else None)"
  by (simp_all add: marking_steps_def marking_step_def)

lemma open_disk0:
  "open_in_out disk0 ''tile.adt'' = Some [1, 2, 3]" "open_in_out disk0 ''gone.adt'' = None"
  "denied disk0 ''locked.adt''" "\<not> denied disk0 ''out.adt''" "\<not> denied disk0 ''./tile.adt''"
  "names disk0 ''tile.adt'' = 0" "names disk0 ''./tile.adt'' = 0" "names disk0 ''out.adt'' = 1"
  "names disk0 ''locked.adt'' = 3"
  by (simp_all add: open_in_out_def disk0_def content_def)

theorem repair_pass_order_witness:
  "content (disk (offsetFix_main (marking_steps 1) [''offsetFix'', ''tile.adt'', ''out.adt''] disk0))
     ''tile.adt'' = Some [1, 2, 3, 1] \<and>
   content (disk (offsetFix_main (marking_steps 2) [''offsetFix'', ''tile.adt'', ''out.adt''] disk0))
     ''tile.adt'' = Some [1, 2, 3, 1, 2] \<and>
   content (disk (offsetFix_main (marking_steps 3) [''offsetFix'', ''tile.adt'', ''out.adt''] disk0))
     ''tile.adt'' = Some [1, 2, 3, 1, 2, 3] \<and>
   content (disk (offsetFix_main (marking_steps 4) [''offsetFix'', ''tile.adt'', ''out.adt''] disk0))
     ''tile.adt'' = Some [1, 2, 3, 1, 2, 3, 4] \<and>
   content (disk (offsetFix_main (marking_steps 5) [''offsetFix'', ''tile.adt'', ''out.adt''] disk0))
     ''tile.adt'' = Some [1, 2, 3, 1, 2, 3, 4, 5] \<and>
   map fst (trace (offsetFix_main (marking_steps 3) [''offsetFix'', ''tile.adt'', ''out.adt''] disk0))
     = [FindMCNKs, FindMDDFandMODF, FixMCNKs] \<and>
   map fst (trace (offsetFix_main (marking_steps 0) [''offsetFix'', ''tile.adt'', ''out.adt''] disk0))
     = pass_order \<and>
   content (disk (offsetFix_main (marking_steps 0) [''offsetFix'', ''tile.adt'', ''out.adt''] disk0))
     ''out.adt'' = Some [1, 2, 3, 1, 2, 3, 4, 5]"
proof -
  let ?argv = "[''offsetFix'', ''tile.adt'', ''out.adt'']"
  have l: "3 \<le> length ?argv" by simp
  have o: "open_in_out disk0 (?argv ! 1) = Some [1, 2, 3]" by (simp add: open_disk0)
  note T = repair_pass_order [OF l o]
  have m1:
    "findMCNKs (marking_steps 1) f d = (f @ [1], d\<lparr>offsetMDDF := 1\<rparr>, Some ''TruncatedChunk'')"
    for f d by (simp_all add: marking)
  note c1 = T [of "marking_steps 1",  THEN conjunct1, rule_format,
      OF m1(1)]
  have m2:
    "findMCNKs (marking_steps 2) f d = (f @ [1], d\<lparr>offsetMDDF := 1\<rparr>, None)"
    "findMDDFandMODF (marking_steps 2) f d = (f @ [2], d\<lparr>offsetMDDF := 2\<rparr>, Some ''TruncatedChunk'')"
    for f d by (simp_all add: marking)
  note c2 = T [of "marking_steps 2", THEN conjunct2, THEN conjunct1, rule_format,
      OF m2(1) m2(2)]
  have m3:
    "findMCNKs (marking_steps 3) f d = (f @ [1], d\<lparr>offsetMDDF := 1\<rparr>, None)"
    "findMDDFandMODF (marking_steps 3) f d = (f @ [2], d\<lparr>offsetMDDF := 2\<rparr>, None)"
    "fixMCNKs (marking_steps 3) f d = (f @ [3], d\<lparr>offsetMDDF := 3\<rparr>, Some ''TruncatedChunk'')"
    for f d by (simp_all add: marking)
  note c3 = T [of "marking_steps 3", THEN conjunct2, THEN conjunct2, THEN conjunct1, rule_format,
      OF m3(1) m3(2) m3(3)]
  have m4:
    "findMCNKs (marking_steps 4) f d = (f @ [1], d\<lparr>offsetMDDF := 1\<rparr>, None)"
    "findMDDFandMODF (marking_steps 4) f d = (f @ [2], d\<lparr>offsetMDDF := 2\<rparr>, None)"
    "fixMCNKs (marking_steps 4) f d = (f @ [3], d\<lparr>offsetMDDF := 3\<rparr>, None)"
    "fixDoodads (marking_steps 4) f d = (f @ [4], d\<lparr>offsetMDDF := 4\<rparr>, Some ''TruncatedChunk'')"
    for f d by (simp_all add: marking)
  note c4 = T [of "marking_steps 4", THEN conjunct2, THEN conjunct2, THEN conjunct2, THEN conjunct1, rule_format,
      OF m4(1) m4(2) m4(3) m4(4)]
  have m5:
    "findMCNKs (marking_steps 5) f d = (f @ [1], d\<lparr>offsetMDDF := 1\<rparr>, None)"
    "findMDDFandMODF (marking_steps 5) f d = (f @ [2], d\<lparr>offsetMDDF := 2\<rparr>, None)"
    "fixMCNKs (marking_steps 5) f d = (f @ [3], d\<lparr>offsetMDDF := 3\<rparr>, None)"
    "fixDoodads (marking_steps 5) f d = (f @ [4], d\<lparr>offsetMDDF := 4\<rparr>, None)"
    "fixWMOs (marking_steps 5) f d = (f @ [5], d\<lparr>offsetMDDF := 5\<rparr>, Some ''TruncatedChunk'')"
    for f d by (simp_all add: marking)
  note c5 = T [of "marking_steps 5", THEN conjunct2, THEN conjunct2, THEN conjunct2, THEN conjunct2, THEN conjunct1, rule_format,
      OF m5(1) m5(2) m5(3) m5(4) m5(5)]
  have m0:
    "findMCNKs (marking_steps 0) f d = (f @ [1], d\<lparr>offsetMDDF := 1\<rparr>, None)"
    "findMDDFandMODF (marking_steps 0) f d = (f @ [2], d\<lparr>offsetMDDF := 2\<rparr>, None)"
    "fixMCNKs (marking_steps 0) f d = (f @ [3], d\<lparr>offsetMDDF := 3\<rparr>, None)"
    "fixDoodads (marking_steps 0) f d = (f @ [4], d\<lparr>offsetMDDF := 4\<rparr>, None)"
    "fixWMOs (marking_steps 0) f d = (f @ [5], d\<lparr>offsetMDDF := 5\<rparr>, None)"
    for f d by (simp_all add: marking)
  note c0 = T [of "marking_steps 0", THEN conjunct2, THEN conjunct2, THEN conjunct2, THEN conjunct2, THEN conjunct2, rule_format,
      OF m0(1) m0(2) m0(3) m0(4) m0(5)]
  from c1 c2 c3 c4 c5 c0 show ?thesis
    by (simp add: open_disk0 pass_order_def)
qed

theorem repair_exit_status_witness:
  "(exit_code (offsetFix_main (marking_steps 0) [''offsetFix'', ''gone.adt'', ''out.adt''] disk0) \<noteq> 0 \<and>
    cerr (offsetFix_main (marking_steps 0) [''offsetFix'', ''gone.adt'', ''out.adt''] disk0) = ''Error opening file: gone.adt'' @ nl) \<and>
   (exit_code (offsetFix_main (marking_steps 1) [''offsetFix'', ''tile.adt'', ''out.adt''] disk0) \<noteq> 0 \<and>
    cerr (offsetFix_main (marking_steps 1) [''offsetFix'', ''tile.adt'', ''out.adt''] disk0) = ''Error processing file: TruncatedChunk'' @ nl) \<and>
   (exit_code (offsetFix_main (marking_steps 2) [''offsetFix'', ''tile.adt'', ''out.adt''] disk0) \<noteq> 0 \<and>
    cerr (offsetFix_main (marking_steps 2) [''offsetFix'', ''tile.adt'', ''out.adt''] disk0) = ''Error processing file: TruncatedChunk'' @ nl) \<and>
   (exit_code (offsetFix_main (marking_steps 3) [''offsetFix'', ''tile.adt'', ''out.adt''] disk0) \<noteq> 0 \<and>
    cerr (offsetFix_main (marking_steps 3) [''offsetFix'', ''tile.adt'', ''out.adt''] disk0) = ''Error processing file: TruncatedChunk'' @ nl) \<and>
   (exit_code (offsetFix_main (marking_steps 4) [''offsetFix'', ''tile.adt'', ''out.adt''] disk0) \<noteq> 0 \<and>
    cerr (offsetFix_main (marking_steps 4) [''offsetFix'', ''tile.adt'', ''out.adt''] disk0) = ''Error processing file: TruncatedChunk'' @ nl) \<and>
   (exit_code (offsetFix_main (marking_steps 5) [''offsetFix'', ''tile.adt'', ''out.adt''] disk0) \<noteq> 0 \<and>
    cerr (offsetFix_main (marking_steps 5) [''offsetFix'', ''tile.adt'', ''out.adt''] disk0) = ''Error processing file: TruncatedChunk'' @ nl) \<and>
   (exit_code (offsetFix_main (marking_steps 0) [''offsetFix'', ''tile.adt'', ''locked.adt''] disk0) \<noteq> 0 \<and>
    cerr (offsetFix_main (marking_steps 0) [''offsetFix'', ''tile.adt'', ''locked.adt''] disk0) = ''Error creating output file: locked.adt'' @ nl) \<and>
   (exit_code (offsetFix_main (marking_steps 0) [''offsetFix'', ''tile.adt'', ''out.adt''] disk0) = 0 \<and> cerr (offsetFix_main (marking_steps 0) [''offsetFix'', ''tile.adt'', ''out.adt''] disk0) = [])"
proof -
  have l: "3 \<le> length [''offsetFix'', ''tile.adt'', ''out.adt'']" "3 \<le> length [''offsetFix'', ''gone.adt'', ''out.adt'']" "3 \<le> length [''offsetFix'', ''tile.adt'', ''locked.adt'']"
    by simp_all
  have o: "open_in_out disk0 ([''offsetFix'', ''tile.adt'', ''out.adt''] ! 1) = Some [1, 2, 3]"
    "open_in_out disk0 ([''offsetFix'', ''tile.adt'', ''locked.adt''] ! 1) = Some [1, 2, 3]"
    "open_in_out disk0 ([''offsetFix'', ''gone.adt'', ''out.adt''] ! 1) = None"
    by (simp_all add: open_disk0)
  have dn: "denied disk0 ([''offsetFix'', ''tile.adt'', ''locked.adt''] ! 2)" "\<not> denied disk0 ([''offsetFix'', ''tile.adt'', ''out.adt''] ! 2)"
    by (simp_all add: open_disk0)
  note g = repair_exit_status [OF l(2), of disk0 "marking_steps 0", THEN conjunct1, rule_format, OF o(3)]
  have m1:
    "findMCNKs (marking_steps 1) f d = (f @ [1], d\<lparr>offsetMDDF := 1\<rparr>, Some ''TruncatedChunk'')"
    for f d by (simp_all add: marking)
  note c1 = repair_exit_status [OF l(1), of disk0 "marking_steps 1", THEN conjunct2, THEN conjunct1,
      rule_format, OF o(1) m1(1)]
  have m2:
    "findMCNKs (marking_steps 2) f d = (f @ [1], d\<lparr>offsetMDDF := 1\<rparr>, None)"
    "findMDDFandMODF (marking_steps 2) f d = (f @ [2], d\<lparr>offsetMDDF := 2\<rparr>, Some ''TruncatedChunk'')"
    for f d by (simp_all add: marking)
  note c2 = repair_exit_status [OF l(1), of disk0 "marking_steps 2", THEN conjunct2, THEN conjunct2, THEN conjunct1,
      rule_format, OF o(1) m2(1) m2(2)]
  have m3:
    "findMCNKs (marking_steps 3) f d = (f @ [1], d\<lparr>offsetMDDF := 1\<rparr>, None)"
    "findMDDFandMODF (marking_steps 3) f d = (f @ [2], d\<lparr>offsetMDDF := 2\<rparr>, None)"
    "fixMCNKs (marking_steps 3) f d = (f @ [3], d\<lparr>offsetMDDF := 3\<rparr>, Some ''TruncatedChunk'')"
    for f d by (simp_all add: marking)
  note c3 = repair_exit_status [OF l(1), of disk0 "marking_steps 3", THEN conjunct2, THEN conjunct2, THEN conjunct2, THEN conjunct1,
      rule_format, OF o(1) m3(1) m3(2) m3(3)]
  have m4:
    "findMCNKs (marking_steps 4) f d = (f @ [1], d\<lparr>offsetMDDF := 1\<rparr>, None)"
    "findMDDFandMODF (marking_steps 4) f d = (f @ [2], d\<lparr>offsetMDDF := 2\<rparr>, None)"
    "fixMCNKs (marking_steps 4) f d = (f @ [3], d\<lparr>offsetMDDF := 3\<rparr>, None)"
    "fixDoodads (marking_steps 4) f d = (f @ [4], d\<lparr>offsetMDDF := 4\<rparr>, Some ''TruncatedChunk'')"
    for f d by (simp_all add: marking)
  note c4 = repair_exit_status [OF l(1), of disk0 "marking_steps 4", THEN conjunct2, THEN conjunct2, THEN conjunct2, THEN conjunct2, THEN conjunct1,
      rule_format, OF o(1) m4(1) m4(2) m4(3) m4(4)]
  have m5:
    "findMCNKs (marking_steps 5) f d = (f @ [1], d\<lparr>offsetMDDF := 1\<rparr>, None)"
    "findMDDFandMODF (marking_steps 5) f d = (f @ [2], d\<lparr>offsetMDDF := 2\<rparr>, None)"
    "fixMCNKs (marking_steps 5) f d = (f @ [3], d\<lparr>offsetMDDF := 3\<rparr>, None)"
    "fixDoodads (marking_steps 5) f d = (f @ [4], d\<lparr>offsetMDDF := 4\<rparr>, None)"
    "fixWMOs (marking_steps 5) f d = (f @ [5], d\<lparr>offsetMDDF := 5\<rparr>, Some ''TruncatedChunk'')"
    for f d by (simp_all add: marking)
  note c5 = repair_exit_status [OF l(1), of disk0 "marking_steps 5", THEN conjunct2, THEN conjunct2, THEN conjunct2, THEN conjunct2, THEN conjunct2, THEN conjunct1,
      rule_format, OF o(1) m5(1) m5(2) m5(3) m5(4) m5(5)]
  have m0:
    "findMCNKs (marking_steps 0) f d = (f @ [1], d\<lparr>offsetMDDF := 1\<rparr>, None)"
    "findMDDFandMODF (marking_steps 0) f d = (f @ [2], d\<lparr>offsetMDDF := 2\<rparr>, None)"
    "fixMCNKs (marking_steps 0) f d = (f @ [3], d\<lparr>offsetMDDF := 3\<rparr>, None)"
    "fixDoodads (marking_steps 0) f d = (f @ [4], d\<lparr>offsetMDDF := 4\<rparr>, None)"
    "fixWMOs (marking_steps 0) f d = (f @ [5], d\<lparr>offsetMDDF := 5\<rparr>, None)"
    for f d by (simp_all add: marking)
  note cl = repair_exit_status [OF l(3), of disk0 "marking_steps 0", THEN conjunct2, THEN conjunct2, THEN conjunct2, THEN conjunct2, THEN conjunct2, THEN conjunct2, THEN conjunct1,
      rule_format, OF o(2) m0(1) m0(2) m0(3) m0(4) m0(5) dn(1)]
  note c0 = repair_exit_status [OF l(1), of disk0 "marking_steps 0", THEN conjunct2, THEN conjunct2, THEN conjunct2, THEN conjunct2, THEN conjunct2, THEN conjunct2, THEN conjunct2,
      rule_format, OF o(1) m0(1) m0(2) m0(3) m0(4) m0(5) dn(2)]
  from g c1 c2 c3 c4 c5 cl c0 show ?thesis
    by simp
qed

text \<open>
  C10 at the failing input: when the output path names the input file, an invocation that
  exits with 0 leaves that file empty, whatever the steps had written: the output stream
  truncates the file before it is read back.
\<close>

theorem same_path_empties_file:
  assumes "3 \<le> length argv" and "names fs (argv ! 2) = names fs (argv ! 1)"
    and "exit_code (offsetFix_main st argv fs) = 0"
  shows "content (disk (offsetFix_main st argv fs)) (argv ! 2) = Some [] \<and>
         content (disk (offsetFix_main st argv fs)) (argv ! 1) = Some []"
  using assms
  by (auto simp: offsetFix_main_def Let_def open_ofstream_def store_def read_rdbuf_def content_def
      split: if_splits option.splits)

lemma thrown_noop: "thrown (try_block noop_steps f d) = None" "zoneFile (try_block noop_steps f d) = f"
  by (simp_all add: try_block_def call_def noop_steps_def noop_step_def Let_def)

theorem same_path_empties_file_witness:
  "names disk0 ''./tile.adt'' = names disk0 ''tile.adt'' \<and>
   exit_code (offsetFix_main noop_steps [''offsetFix'', ''tile.adt'', ''./tile.adt''] disk0) = 0 \<and>
   zoneFile (try_block noop_steps [1, 2, 3] offData_init) = [1, 2, 3] \<and>
   content (disk (offsetFix_main noop_steps [''offsetFix'', ''tile.adt'', ''./tile.adt''] disk0))
     ''tile.adt'' = Some []"
proof -
  let ?argv = "[''offsetFix'', ''tile.adt'', ''./tile.adt'']"
  have l: "3 \<le> length ?argv" by simp
  have n: "names disk0 (?argv ! 2) = names disk0 (?argv ! 1)"
    by (simp add: open_disk0)
  have e: "exit_code (offsetFix_main noop_steps ?argv disk0) = 0"
    by (simp add: main_exit_0_iff open_disk0 thrown_noop)
  from same_path_empties_file [OF l n e] n e show ?thesis
    by (simp add: thrown_noop)
qed

text \<open>
  When the two paths name different files, a run that exits with 0 leaves the bytes the
  steps produced in both files.
\<close>

lemma output_is_copy:
  assumes "names fs (argv ! 2) \<noteq> names fs (argv ! 1)" "exit_code (offsetFix_main st argv fs) = 0"
    "open_in_out fs (argv ! 1) = Some bytes"
  shows "content (disk (offsetFix_main st argv fs)) (argv ! 2) =
           Some (zoneFile (try_block st bytes offData_init)) \<and>
         content (disk (offsetFix_main st argv fs)) (argv ! 1) =
           Some (zoneFile (try_block st bytes offData_init))"
  using assms
  by (auto simp: offsetFix_main_def Let_def open_ofstream_def store_def read_rdbuf_def content_def
      split: if_splits option.splits)

lemma failed_run_frame:
  assumes "exit_code (offsetFix_main st argv fs) \<noteq> 0"
  shows "names (disk (offsetFix_main st argv fs)) = names fs \<and>
         denied (disk (offsetFix_main st argv fs)) = denied fs \<and>
         (\<forall>i. 3 \<le> length argv \<longrightarrow> i \<noteq> names fs (argv ! 1) \<longrightarrow>
              files (disk (offsetFix_main st argv fs)) i = files fs i) \<and>
         (length argv < 3 \<longrightarrow> disk (offsetFix_main st argv fs) = fs)"
  using assms
  by (auto simp: offsetFix_main_def Let_def open_ofstream_def store_def
      split: if_splits option.splits)

lemma offset_init [simp]: "offset offData_init = Offsets_zero"
  by (simp add: offData_init_def)

lemma keeps_offsetD: "keeps_offset g \<Longrightarrow> g f d = (f', d', e) \<Longrightarrow> offset d' = offset d"
  by (metis keeps_offset_def fst_conv snd_conv)

lemma neutral_at_zeroD:
  "neutral_at_zero g \<Longrightarrow> g f d = (f', d', e) \<Longrightarrow> offset d = Offsets_zero \<Longrightarrow> f' = f"
  by (metis neutral_at_zero_def fst_conv)

lemma try_block_offsets:
  "(FindMCNKs, off) \<in> set (calls (try_block st f d)) \<Longrightarrow> off = offset d"
  "keeps_offset (findMCNKs st) \<Longrightarrow> keeps_offset (findMDDFandMODF st) \<Longrightarrow>
     (FixMCNKs, off) \<in> set (calls (try_block st f d)) \<Longrightarrow> off = offset d"
  "keeps_offset (findMCNKs st) \<Longrightarrow> keeps_offset (findMDDFandMODF st) \<Longrightarrow>
     keeps_offset (fixMCNKs st) \<Longrightarrow>
     (FixDoodads, off) \<in> set (calls (try_block st f d)) \<Longrightarrow> off = offset d"
  "keeps_offset (findMCNKs st) \<Longrightarrow> keeps_offset (findMDDFandMODF st) \<Longrightarrow>
     keeps_offset (fixMCNKs st) \<Longrightarrow> keeps_offset (fixDoodads st) \<Longrightarrow>
     (FixWMOs, off) \<in> set (calls (try_block st f d)) \<Longrightarrow> off = offset d"
  by (auto simp: try_block_def call_def Let_def case_prod_beta keeps_offset_def
      split: option.splits)

lemma trace_main:
  "trace (offsetFix_main st argv fs) = [] \<or>
   (\<exists>bytes. 3 \<le> length argv \<and> open_in_out fs (argv ! 1) = Some bytes \<and>
      trace (offsetFix_main st argv fs) = calls (try_block st bytes offData_init))"
  by (auto simp: offsetFix_main_def Let_def split: option.splits)

lemma trace_offsets:
  "(FindMCNKs, off) \<in> set (trace (offsetFix_main st argv fs)) \<Longrightarrow> off = Offsets_zero"
  "keeps_offset (findMCNKs st) \<Longrightarrow> keeps_offset (findMDDFandMODF st) \<Longrightarrow>
     (FixMCNKs, off) \<in> set (trace (offsetFix_main st argv fs)) \<Longrightarrow> off = Offsets_zero"
  "keeps_offset (findMCNKs st) \<Longrightarrow> keeps_offset (findMDDFandMODF st) \<Longrightarrow>
     keeps_offset (fixMCNKs st) \<Longrightarrow>
     (FixDoodads, off) \<in> set (trace (offsetFix_main st argv fs)) \<Longrightarrow> off = Offsets_zero"
  "keeps_offset (findMCNKs st) \<Longrightarrow> keeps_offset (findMDDFandMODF st) \<Longrightarrow>
     keeps_offset (fixMCNKs st) \<Longrightarrow> keeps_offset (fixDoodads st) \<Longrightarrow>
     (FixWMOs, off) \<in> set (trace (offsetFix_main st argv fs)) \<Longrightarrow> off = Offsets_zero"
  using trace_main [of st argv fs] try_block_offsets [where st = st and off = off and d = offData_init]
  by (auto simp del: offset_init simp: offset_init [symmetric])

lemma zero_delta_repair:
  assumes l: "3 \<le> length argv" and o: "open_in_out fs (argv ! 1) = Some f"
    and k: "keeps_offset (findMCNKs st)" "keeps_offset (findMDDFandMODF st)"
      "keeps_offset (fixMCNKs st)" "keeps_offset (fixDoodads st)"
    and z: "neutral_at_zero (fixDoodads st)" "neutral_at_zero (fixWMOs st)"
    and c: "findMCNKs st f offData_init = (f1, d1, None)" "findMDDFandMODF st f1 d1 = (f2, d2, None)"
      "fixMCNKs st f2 d2 = (f3, d3, None)" "fixDoodads st f3 d3 = (f4, d4, None)"
      "fixWMOs st f4 d4 = (f5, d5, None)"
  shows "f4 = f3 \<and> f5 = f3 \<and>
         (\<not> denied fs (argv ! 2) \<longrightarrow> names fs (argv ! 2) \<noteq> names fs (argv ! 1) \<longrightarrow>
            exit_code (offsetFix_main st argv fs) = 0 \<and>
            content (disk (offsetFix_main st argv fs)) (argv ! 2) = Some f3)"
proof -
  from keeps_offsetD [OF k(1) c(1)] have o1: "offset d1 = Offsets_zero" by simp
  from keeps_offsetD [OF k(2) c(2)] o1 have o2: "offset d2 = Offsets_zero" by simp
  from keeps_offsetD [OF k(3) c(3)] o2 have o3: "offset d3 = Offsets_zero" by simp
  from keeps_offsetD [OF k(4) c(4)] o3 have o4: "offset d4 = Offsets_zero" by simp
  from neutral_at_zeroD [OF z(1) c(4) o3] have f4: "f4 = f3" .
  from neutral_at_zeroD [OF z(2) c(5) o4] f4 have f5: "f5 = f3" by simp
  from main_done [OF l o try_block_last [OF c]] f4 f5 show ?thesis
    by simp
qed


lemma shifting:
  "findMCNKs shifting_steps f d = (f, d, None)" "findMDDFandMODF shifting_steps f d = (f, d, None)"
  "fixMCNKs shifting_steps f d = (f[0 := 0xFF], d, None)"
  "fixDoodads shifting_steps f offData_init = (f, offData_init, None)"
  "fixWMOs shifting_steps f offData_init = (f, offData_init, None)"
  by (simp_all add: shifting_steps_def shifting_step_def noop_step_def writing_step_def
      offData_init_def Offsets_zero_def)

lemma shifting_props:
  "keeps_offset (findMCNKs shifting_steps)" "keeps_offset (findMDDFandMODF shifting_steps)"
  "keeps_offset (fixMCNKs shifting_steps)" "keeps_offset (fixDoodads shifting_steps)"
  "neutral_at_zero (fixDoodads shifting_steps)" "neutral_at_zero (fixWMOs shifting_steps)"
  by (simp_all add: keeps_offset_def neutral_at_zero_def shifting_steps_def shifting_step_def
      noop_step_def writing_step_def Offsets_zero_def)


section \<open>The converter: the files main writes\<close>

lemma convert_adts_written:
  "convert_adts lib wdtName offs md mo ns written = (Exited c, out) \<Longrightarrow>
     c = 0 \<and> out = written @ map AdtFile ns"
proof (induction ns arbitrary: written)
  case Nil
  then show ?case by simp
next
  case (Cons n ns)
  from Cons.prems have
    "convert_adts lib wdtName offs md mo ns (written @ [AdtFile n]) = (Exited c, out)"
    by (simp split: if_splits option.splits)
  from Cons.IH [OF this] show ?case by simp
qed

lemma count_list_map_int_filter:
  "count_list (map AdtFile (map int (filter P [0..<k]))) (AdtFile n) =
     (if 0 \<le> n \<and> nat n < k \<and> P (nat n) then 1 else 0)"
  by (induction k) auto

lemma count_wdt: "count_list (map AdtFile ns) WdtFile = 0"
  by (induction ns) auto

lemma run6:
  "fixes_main lib6 [''fixes'', ''Azeroth.wdt''] = (Exited 0, [WdtFile, AdtFile 1, AdtFile 3])"
  by (simp add: fixes_main_def lib6_def legacy6_def getExistingAdtsNumbers_def upt_rec)



section \<open>The steps of the spec: bytes, chunks and the rewritten index\<close>

lemma length_a256_list [simp]: "length (a256_list a) = 256"
  by transfer simp

lemma a256_list_set [simp]: "a256_list (a256_set a i v) = (a256_list a)[i := v]"
  by transfer simp

lemma a256_get_list: "a256_get a i = a256_list a ! i"
  by transfer simp

lemma a256_list_fill [simp]: "a256_list (a256_fill v) = replicate 256 v"
  by transfer simp

lemma length_le32 [simp]: "length (le32 w) = 4"
  by (simp add: le32_def)

lemma from_le32_le32 [simp]: "from_le32 (le32 w) = w"
proof (rule bit_word_eqI)
  fix n assume "n < LENGTH(32)"
  then consider "n < 8" | "8 \<le> n" "n < 16" | "16 \<le> n" "n < 24" | "24 \<le> n" "n < 32"
    by fastforce
  then show "bit (from_le32 (le32 w)) n = bit w n"
    by cases (auto simp: from_le32_def le32_def bit_simps)
qed

lemma length_write_at: "p + length bs \<le> length f \<Longrightarrow> length (write_at f p bs) = length f"
  by (simp add: write_at_def)

lemma nth_write_at:
  "p + length bs \<le> length f \<Longrightarrow> i < length f \<Longrightarrow>
     write_at f p bs ! i = (if p \<le> i \<and> i < p + length bs then bs ! (i - p) else f ! i)"
  by (auto simp: write_at_def nth_append)

lemma length_rewrite_into:
  "p + 16 * length es \<le> length f \<Longrightarrow> length (rewrite_into f p es) = length f"
  by (induction es arbitrary: f p) (simp_all add: length_write_at)


lemma length_pair_bytes [simp]: "length (pair_bytes e) = 8"
  by (simp add: pair_bytes_def)

lemma rewrite_into_Cons:
  "rewrite_into f p (e # es) = rewrite_into (write_at f p (pair_bytes e)) (p + 16) es"
  by (simp add: pair_bytes_def)

lemma nth_rewrite_into_outside:
  "p + 16 * length es \<le> length f \<Longrightarrow> i < length f \<Longrightarrow> i < p \<or> p + 16 * length es \<le> i \<Longrightarrow>
     rewrite_into f p es ! i = f ! i"
proof (induction es arbitrary: f p)
  case Nil
  then show ?case by simp
next
  case (Cons e es)
  have len: "length (write_at f p (pair_bytes e)) = length f"
    using Cons.prems by (simp add: length_write_at)
  have "rewrite_into (write_at f p (pair_bytes e)) (p + 16) es ! i = write_at f p (pair_bytes e) ! i"
    using Cons.prems len by (intro Cons.IH) auto
  also have "\<dots> = f ! i"
    using Cons.prems by (auto simp: nth_write_at)
  finally show ?case
    by (simp only: rewrite_into_Cons)
qed

lemma nth_rewrite_into_entry:
  "p + 16 * length es \<le> length f \<Longrightarrow> j < length es \<Longrightarrow> k < 16 \<Longrightarrow>
     rewrite_into f p es ! (p + 16 * j + k) =
       (if k < 8 then pair_bytes (es ! j) ! k else f ! (p + 16 * j + k))"
proof (induction es arbitrary: f p j)
  case Nil
  then show ?case by simp
next
  case (Cons e es)
  let ?g = "write_at f p (pair_bytes e)"
  have len: "length ?g = length f"
    using Cons.prems by (simp add: length_write_at)
  show ?case
  proof (cases j)
    case 0
    have "rewrite_into ?g (p + 16) es ! (p + k) = ?g ! (p + k)"
      using Cons.prems len by (intro nth_rewrite_into_outside) auto
    also have "\<dots> = (if k < 8 then pair_bytes e ! k else f ! (p + k))"
      using Cons.prems by (simp add: nth_write_at)
    finally show ?thesis
      using 0 by (simp only: rewrite_into_Cons) simp
  next
    case (Suc j')
    have "rewrite_into ?g (p + 16) es ! (p + 16 + 16 * j' + k) =
            (if k < 8 then pair_bytes (es ! j') ! k else ?g ! (p + 16 + 16 * j' + k))"
      using Cons.prems len Suc by (intro Cons.IH) auto
    moreover have "?g ! (p + 16 + 16 * j' + k) = f ! (p + 16 + 16 * j' + k)"
      using Cons.prems Suc by (simp add: nth_write_at)
    moreover have "p + 16 * j + k = p + 16 + 16 * j' + k"
      using Suc by simp
    ultimately show ?thesis
      using Suc by (simp only: rewrite_into_Cons) simp
  qed
qed

declare scan.simps [simp del]

lemma read_chunk_Inr:
  "read_chunk f p = Inr (c, p') \<Longrightarrow>
     cpos c = p \<and> p' = p + 8 + clen c \<and> p' \<le> length f \<and>
     ctag c = take 4 (drop p f) \<and> clen c = unat (from_le32 (take 4 (drop (p + 4) f)))"
  by (auto simp: read_chunk_def Let_def split: if_splits)

lemma scan_bounds:
  "scan f p = Inr cs \<Longrightarrow> c \<in> set cs \<Longrightarrow> p \<le> cpos c \<and> cpos c + 8 + clen c \<le> length f"
proof (induction f p arbitrary: cs rule: scan.induct)
  case (1 buf p)
  show ?case
  proof (cases "length buf \<le> p")
    case True
    with "1.prems" show ?thesis by (simp add: scan.simps [of buf p])
  next
    case False
    with "1.prems" obtain c0 p' cs' where
      r: "read_chunk buf p = Inr (c0, p')" and s: "scan buf p' = Inr cs'" and cs: "cs = c0 # cs'"
      by (auto simp: scan.simps [of buf p] split: sum.splits prod.splits)
    from read_chunk_Inr [OF r] have b: "cpos c0 = p" "p' = p + 8 + clen c0" "p' \<le> length buf"
      by simp_all
    show ?thesis
    proof (cases "c = c0")
      case True
      with b show ?thesis by simp
    next
      case ne: False
      with "1.prems" cs have "c \<in> set cs'" by simp
      from "1.IH" [OF False r refl s this] b show ?thesis by simp
    qed
  qed
qed

lemma take_drop_cong:
  assumes "length g = length f" and "\<And>i. a \<le> i \<Longrightarrow> i < a + n \<Longrightarrow> i < length f \<Longrightarrow> g ! i = f ! i"
  shows "take n (drop a g) = take n (drop a f)"
proof (rule nth_equalityI)
  show "length (take n (drop a g)) = length (take n (drop a f))"
    by (simp add: assms(1))
next
  fix i assume "i < length (take n (drop a g))"
  then have i: "i < n" "a + i < length f"
    using assms(1) by auto
  then have "g ! (a + i) = f ! (a + i)"
    by (intro assms(2)) auto
  with i assms(1) show "take n (drop a g) ! i = take n (drop a f) ! i"
    by simp
qed

lemma read_chunk_cong:
  assumes "length g = length f"
    and "\<And>i. p \<le> i \<Longrightarrow> i < p + 8 \<Longrightarrow> i < length f \<Longrightarrow> g ! i = f ! i"
  shows "read_chunk g p = read_chunk f p"
proof -
  have t: "take 4 (drop p g) = take 4 (drop p f)"
    using assms by (intro take_drop_cong) auto
  have l: "take 4 (drop (p + 4) g) = take 4 (drop (p + 4) f)"
    using assms by (intro take_drop_cong) auto
  show ?thesis
    by (simp add: read_chunk_def Let_def t l assms(1))
qed

text \<open>A change confined to payloads of the chunks leaves the scan as it is.\<close>

lemma scan_cong:
  assumes "scan f p = Inr cs" and "length g = length f"
    and "\<And>i. p \<le> i \<Longrightarrow> i < length f \<Longrightarrow> g ! i \<noteq> f ! i \<Longrightarrow>
            \<exists>c \<in> set cs. cpos c + 8 \<le> i \<and> i < cpos c + 8 + clen c"
  shows "scan g p = Inr cs"
  using assms
proof (induction f p arbitrary: cs rule: scan.induct)
  case (1 buf p)
  show ?case
  proof (cases "length buf \<le> p")
    case True
    with "1.prems" show ?thesis by (simp add: scan.simps [of buf p] scan.simps [of g p])
  next
    case False
    with "1.prems"(1) obtain c0 p' cs' where
      r: "read_chunk buf p = Inr (c0, p')" and s: "scan buf p' = Inr cs'" and cs: "cs = c0 # cs'"
      by (auto simp: scan.simps [of buf p] split: sum.splits prod.splits)
    from read_chunk_Inr [OF r] have b: "cpos c0 = p" "p' = p + 8 + clen c0" "p' \<le> length buf"
      by simp_all
    have hdr: "g ! i = buf ! i" if "p \<le> i" "i < p + 8" "i < length buf" for i
    proof (rule ccontr)
      assume "g ! i \<noteq> buf ! i"
      from "1.prems"(3) [OF that(1) that(3) this] obtain c where
        c: "c \<in> set cs" "cpos c + 8 \<le> i" "i < cpos c + 8 + clen c" by auto
      show False
      proof (cases "c = c0")
        case True
        with c b that show False by simp
      next
        case ne: False
        with c cs have "c \<in> set cs'" by simp
        from scan_bounds [OF s this] b c that show False by simp
      qed
    qed
    have "read_chunk g p = read_chunk buf p"
    proof (rule read_chunk_cong)
      show "length g = length buf" by fact
      show "g ! i = buf ! i" if "p \<le> i" "i < p + 8" "i < length buf" for i
        using that by (rule hdr)
    qed
    with r have rg: "read_chunk g p = Inr (c0, p')"
      by simp
    have tail: "\<exists>c \<in> set cs'. cpos c + 8 \<le> i \<and> i < cpos c + 8 + clen c"
      if "p' \<le> i" "i < length buf" "g ! i \<noteq> buf ! i" for i
    proof -
      from that b have "p \<le> i" by simp
      from "1.prems"(3) [OF this that(2) that(3)] obtain c where
        c: "c \<in> set cs" "cpos c + 8 \<le> i" "i < cpos c + 8 + clen c" by auto
      with b that have "c \<noteq> c0" by auto
      with c cs show ?thesis by auto
    qed
    have "scan g p' = Inr cs'"
      by (rule "1.IH" [OF False r refl s "1.prems"(2) tail])
    with rg False "1.prems"(2) cs show ?thesis
      by (simp add: scan.simps [of g p])
  qed
qed

lemma offset_record_MCNKs [simp]: "offset (record_MCNKs cs i d) = offset d"
  by (induction cs i d rule: record_MCNKs.induct) simp_all

lemma length_rebuilt_index [simp]: "length (rebuilt_index cs) = 256"
  by (simp add: rebuilt_index_def)

lemma spec_pass_ok:
  assumes "scan f 0 = Inr cs"
    and "find (\<lambda>c. ctag c = tag_MDDF) cs = Some a" and "find (\<lambda>c. ctag c = tag_MODF) cs = Some b"
    and "index_chunk cs = Some c"
  shows "thrown (try_block (spec_steps fo) f offData_init) = None \<and>
         zoneFile (try_block (spec_steps fo) f offData_init) = rewrite_into f (cpos c + 8) (rebuilt_index cs)"
  using assms
  by (simp add: try_block_def call_def spec_steps_def spec_findMCNKs_def spec_findMDDFandMODF_def
      spec_fixMCNKs_def spec_fixDoodads_def spec_fixWMOs_def translate_chunk_def rebuilt_index_def)

lemma spec_pass_cases:
  "(\<exists>cs a b c. scan f 0 = Inr cs \<and> find (\<lambda>c. ctag c = tag_MDDF) cs = Some a \<and>
       find (\<lambda>c. ctag c = tag_MODF) cs = Some b \<and> index_chunk cs = Some c) \<or>
   (thrown (try_block (spec_steps fo) f offData_init) \<noteq> None \<and>
    zoneFile (try_block (spec_steps fo) f offData_init) = f)"
  by (simp add: try_block_def call_def spec_steps_def spec_findMCNKs_def spec_findMDDFandMODF_def
      spec_fixMCNKs_def spec_fixDoodads_def spec_fixWMOs_def translate_chunk_def
      split: sum.splits option.splits)

lemma rewrite_into_idem:
  assumes "p + 16 * length es \<le> length f"
  shows "rewrite_into (rewrite_into f p es) p es = rewrite_into f p es"
proof (rule nth_equalityI)
  show "length (rewrite_into (rewrite_into f p es) p es) = length (rewrite_into f p es)"
    using assms by (simp add: length_rewrite_into)
next
  fix i assume "i < length (rewrite_into (rewrite_into f p es) p es)"
  then have i: "i < length f"
    using assms by (simp add: length_rewrite_into)
  let ?g = "rewrite_into f p es"
  have lg: "length ?g = length f" "p + 16 * length es \<le> length ?g"
    using assms by (simp_all add: length_rewrite_into)
  show "rewrite_into ?g p es ! i = ?g ! i"
  proof (cases "i < p \<or> p + 16 * length es \<le> i")
    case True
    then show ?thesis
      using lg i by (intro nth_rewrite_into_outside) auto
  next
    case False
    define j where "j = (i - p) div 16"
    define k where "k = (i - p) mod 16"
    have "i - p < length es * 16"
      using False by arith
    then have "j < length es"
      unfolding j_def by (simp add: div_less_iff_less_mult)
    moreover have "i = p + 16 * j + k" "k < 16"
      using False unfolding j_def k_def by simp_all
    ultimately have ik: "i = p + 16 * j + k" "k < 16" "j < length es"
      by simp_all
    have "rewrite_into ?g p es ! (p + 16 * j + k) =
            (if k < 8 then pair_bytes (es ! j) ! k else ?g ! (p + 16 * j + k))"
      using lg ik by (intro nth_rewrite_into_entry) auto
    moreover have "?g ! (p + 16 * j + k) =
            (if k < 8 then pair_bytes (es ! j) ! k else f ! (p + 16 * j + k))"
      using assms ik by (intro nth_rewrite_into_entry) auto
    ultimately show ?thesis
      unfolding ik(1) by simp
  qed
qed

lemma index_chunk_Some:
  "index_chunk cs = Some c \<Longrightarrow> c \<in> set cs \<and> ctag c = tag_MCIN \<and> clen c = 4096"
  by (auto simp: index_chunk_def find_Some_iff)

lemma scan_rewrite_into:
  assumes s: "scan f 0 = Inr cs" and c: "index_chunk cs = Some c" and l: "length es = 256"
  shows "scan (rewrite_into f (cpos c + 8) es) 0 = Inr cs \<and>
         length (rewrite_into f (cpos c + 8) es) = length f"
proof -
  from index_chunk_Some [OF c] have cm: "c \<in> set cs" "clen c = 4096" by simp_all
  from scan_bounds [OF s cm(1)] cm(2) l have b: "cpos c + 8 + 16 * length es \<le> length f"
    by simp
  have len: "length (rewrite_into f (cpos c + 8) es) = length f"
    using b by (simp add: length_rewrite_into)
  have "scan (rewrite_into f (cpos c + 8) es) 0 = Inr cs"
  proof (rule scan_cong [OF s len])
    fix i assume i: "0 \<le> i" "i < length f" "rewrite_into f (cpos c + 8) es ! i \<noteq> f ! i"
    have "\<not> (i < cpos c + 8 \<or> cpos c + 8 + 16 * length es \<le> i)"
      using nth_rewrite_into_outside [OF b i(2)] i(3) by blast
    with cm l show "\<exists>c \<in> set cs. cpos c + 8 \<le> i \<and> i < cpos c + 8 + clen c"
      by (intro bexI [of _ c]) auto
  qed
  with len show ?thesis by simp
qed

lemma spec_pass_idem:
  assumes "thrown (try_block (spec_steps fo) f offData_init) = None"
  shows "thrown (try_block (spec_steps fo) (zoneFile (try_block (spec_steps fo) f offData_init)) offData_init) = None \<and>
         zoneFile (try_block (spec_steps fo) (zoneFile (try_block (spec_steps fo) f offData_init)) offData_init)
           = zoneFile (try_block (spec_steps fo) f offData_init)"
proof -
  from assms spec_pass_cases [of f fo] obtain cs a b c where
    s: "scan f 0 = Inr cs" and a: "find (\<lambda>c. ctag c = tag_MDDF) cs = Some a"
    and b: "find (\<lambda>c. ctag c = tag_MODF) cs = Some b" and c: "index_chunk cs = Some c"
    by auto
  let ?g = "rewrite_into f (cpos c + 8) (rebuilt_index cs)"
  have z: "zoneFile (try_block (spec_steps fo) f offData_init) = ?g"
    using spec_pass_ok [OF s a b c] by simp
  from scan_rewrite_into [OF s c length_rebuilt_index]
  have sg: "scan ?g 0 = Inr cs" and lg: "length ?g = length f" by simp_all
  from index_chunk_Some [OF c] have cm: "c \<in> set cs" "clen c = 4096" by simp_all
  from scan_bounds [OF s cm(1)] cm(2) have bnd: "cpos c + 8 + 16 * length (rebuilt_index cs) \<le> length f"
    by simp
  from spec_pass_ok [OF sg a b c, of fo] rewrite_into_idem [OF bnd]
  show ?thesis
    unfolding z by simp
qed


lemma unat_4096: "unat (from_le32 (le32 4096)) = 4096" "unat (from_le32 (le32 0)) = 0"
  "unat (from_le32 (le32 4)) = 4" "unat (from_le32 (le32 38)) = 38"
  by simp_all

lemma scan_tile0:
  "scan tile0 0 = Inr [\<lparr>ctag = tag_MCIN, cpos = 0, clen = 4096\<rparr>, \<lparr>ctag = tag_MDDF, cpos = 4104, clen = 38\<rparr>,
      \<lparr>ctag = tag_MODF, cpos = 4150, clen = 0\<rparr>, \<lparr>ctag = tag_MCNK, cpos = 4158, clen = 4\<rparr>]"
proof -
  have l: "length tile0 = 4170"
    by (simp add: tile0_def tag_MCIN_def tag_MDDF_def tag_MODF_def tag_MCNK_def)
  have r0: "read_chunk tile0 0 = Inr (\<lparr>ctag = tag_MCIN, cpos = 0, clen = 4096\<rparr>, 4104)"
    by (simp add: read_chunk_def l Let_def)
      (simp add: tile0_def tag_MCIN_def tag_MDDF_def tag_MODF_def tag_MCNK_def unat_4096)
  have r1: "read_chunk tile0 4104 = Inr (\<lparr>ctag = tag_MDDF, cpos = 4104, clen = 38\<rparr>, 4150)"
    by (simp add: read_chunk_def l Let_def)
      (simp add: tile0_def tag_MCIN_def tag_MDDF_def tag_MODF_def tag_MCNK_def unat_4096)
  have r2: "read_chunk tile0 4150 = Inr (\<lparr>ctag = tag_MODF, cpos = 4150, clen = 0\<rparr>, 4158)"
    by (simp add: read_chunk_def l Let_def)
      (simp add: tile0_def tag_MCIN_def tag_MDDF_def tag_MODF_def tag_MCNK_def unat_4096)
  have r3: "read_chunk tile0 4158 = Inr (\<lparr>ctag = tag_MCNK, cpos = 4158, clen = 4\<rparr>, 4170)"
    by (simp add: read_chunk_def l Let_def)
      (simp add: tile0_def tag_MCIN_def tag_MDDF_def tag_MODF_def tag_MCNK_def unat_4096)
  have s4: "scan tile0 4170 = Inr []"
    by (simp add: scan.simps [of tile0 4170] l)
  have s3: "scan tile0 4158 = Inr [\<lparr>ctag = tag_MCNK, cpos = 4158, clen = 4\<rparr>]"
    by (simp add: scan.simps [of tile0 4158] l r3 s4)
  have s2: "scan tile0 4150 = Inr [\<lparr>ctag = tag_MODF, cpos = 4150, clen = 0\<rparr>, \<lparr>ctag = tag_MCNK, cpos = 4158, clen = 4\<rparr>]"
    by (simp add: scan.simps [of tile0 4150] l r2 s3)
  have s1: "scan tile0 4104 = Inr [\<lparr>ctag = tag_MDDF, cpos = 4104, clen = 38\<rparr>,
      \<lparr>ctag = tag_MODF, cpos = 4150, clen = 0\<rparr>, \<lparr>ctag = tag_MCNK, cpos = 4158, clen = 4\<rparr>]"
    by (simp add: scan.simps [of tile0 4104] l r1 s2)
  show ?thesis
    by (simp add: scan.simps [of tile0 0] l r0 s1)
qed

lemma thrown_tile0: "thrown (try_block (spec_steps fo) tile0 offData_init) = None"
proof -
  have "thrown (try_block (spec_steps fo) tile0 offData_init) = None \<and>
        zoneFile (try_block (spec_steps fo) tile0 offData_init) =
          rewrite_into tile0 (cpos \<lparr>ctag = tag_MCIN, cpos = 0, clen = 4096\<rparr> + 8)
            (rebuilt_index [\<lparr>ctag = tag_MCIN, cpos = 0, clen = 4096\<rparr>, \<lparr>ctag = tag_MDDF, cpos = 4104, clen = 38\<rparr>,
      \<lparr>ctag = tag_MODF, cpos = 4150, clen = 0\<rparr>, \<lparr>ctag = tag_MCNK, cpos = 4158, clen = 4\<rparr>])"
    by (rule spec_pass_ok [OF scan_tile0])
      (simp_all add: index_chunk_def tag_MCIN_def tag_MDDF_def tag_MODF_def tag_MCNK_def)
  then show ?thesis by simp
qed

lemma length_MCIN_bytes [simp]: "length (MCIN_bytes e) = 16"
  by (simp add: MCIN_bytes_def)

lemma MCIN_of_bytes_bytes [simp]: "MCIN_of_bytes (MCIN_bytes e) = e"
  by (cases e) (simp add: MCIN_bytes_def MCIN_of_bytes_def)

lemma length_index_payload: "length (index_payload a) = 4096"
proof -
  have "length (concat (map MCIN_bytes xs)) = 16 * length xs" for xs
    by (induction xs) simp_all
  then show ?thesis by (simp add: index_payload_def)
qed

lemma le32_from_le32_4: "le32 (from_le32 [a, b, c, d]) = [a, b, c, d]"
  unfolding from_le32_def le32_def
  by (simp; intro conjI; rule bit_word_eqI; auto simp: bit_simps dest: bit_imp_le_length)

lemma le32_from_le32: "length bs = 4 \<Longrightarrow> le32 (from_le32 bs) = bs"
proof -
  assume "length bs = 4"
  then obtain a b c d where "bs = [a, b, c, d]"
    by (auto simp: length_Suc_conv numeral_eq_Suc)
  then show ?thesis by (simp only: le32_from_le32_4)
qed

lemma MCIN_bytes_of_bytes: "length bs = 16 \<Longrightarrow> MCIN_bytes (MCIN_of_bytes bs) = bs"
proof -
  assume l: "length bs = 16"
  have "take 4 bs @ take 4 (drop 4 bs) @ take 4 (drop 8 bs) @ take 4 (drop 12 bs) = take 16 bs"
    by (simp add: take_add [symmetric] flip: append_assoc) 
  then show ?thesis
    using l by (simp add: MCIN_bytes_def MCIN_of_bytes_def le32_from_le32)
qed


lemma open_disk1:
  "open_in_out disk1 ''tile.adt'' = Some tile0" "\<not> denied disk1 ''out.adt''"
  "\<not> denied disk1 ''again.adt''" "names disk1 ''tile.adt'' = 0" "names disk1 ''out.adt'' = 1"
  "names disk1 ''again.adt'' = 2"
  by (simp_all add: open_in_out_def disk1_def disk0_def content_def)

lemma exit_run1:
  "exit_code (offsetFix_main (spec_steps fo) [''offsetFix'', ''tile.adt'', ''out.adt''] disk1) = 0"
  by (simp add: main_exit_0_iff open_disk1 thrown_tile0)


text \<open>
  C6: with the steps as the spec describes them, when a repair of \<open>inp\<close> into \<open>out\<close> has
  completed successfully, a second repair, of \<open>out\<close> into \<open>out2\<close>, completes successfully
  too and its output is byte for byte its input.
\<close>

theorem repair_idempotent:
  assumes e1: "exit_code (offsetFix_main (spec_steps fo) [prog, inp, out] fs) = 0"
    and n1: "names fs out \<noteq> names fs inp" and n2: "names fs out2 \<noteq> names fs out"
    and d2: "\<not> denied fs out2"
  shows "exit_code (offsetFix_main (spec_steps fo) [prog, out, out2]
            (disk (offsetFix_main (spec_steps fo) [prog, inp, out] fs))) = 0 \<and>
         content (disk (offsetFix_main (spec_steps fo) [prog, out, out2]
            (disk (offsetFix_main (spec_steps fo) [prog, inp, out] fs)))) out2 =
         content (disk (offsetFix_main (spec_steps fo) [prog, inp, out] fs)) out"
proof -
  let ?S = "spec_steps fo"
  let ?r1 = "offsetFix_main ?S [prog, inp, out] fs"
  from e1 obtain f where o1: "open_in_out fs inp = Some f"
    and t1: "thrown (try_block ?S f offData_init) = None" and d1: "\<not> denied fs out"
    by (auto simp: main_exit_0_iff)
  let ?g = "zoneFile (try_block ?S f offData_init)"
  from main_done [of "[prog, inp, out]" fs f ?S, OF _ _ refl t1] o1 d1 n1
  have g: "content (disk ?r1) out = Some ?g" and dn: "denied (disk ?r1) = denied fs"
    and nm: "names (disk ?r1) = names fs"
    by simp_all
  have o2: "open_in_out (disk ?r1) out = Some ?g"
    using g dn d1 by (simp add: open_in_out_def)
  from spec_pass_idem [OF t1] have t2: "thrown (try_block ?S ?g offData_init) = None"
    and z2: "zoneFile (try_block ?S ?g offData_init) = ?g" by simp_all
  from main_done [of "[prog, out, out2]" "disk ?r1" ?g ?S, OF _ _ refl t2] o2 dn d2 nm n2 z2
  have "exit_code (offsetFix_main ?S [prog, out, out2] (disk ?r1)) = 0"
    and "content (disk (offsetFix_main ?S [prog, out, out2] (disk ?r1))) out2 = Some ?g"
    by simp_all
  with g show ?thesis by simp
qed

theorem repair_idempotent_witness:
  "exit_code (offsetFix_main (spec_steps sample_float_ops)
     [''offsetFix'', ''tile.adt'', ''out.adt''] disk1) = 0 \<and>
   exit_code (offsetFix_main (spec_steps sample_float_ops) [''offsetFix'', ''out.adt'', ''again.adt'']
      (disk (offsetFix_main (spec_steps sample_float_ops)
         [''offsetFix'', ''tile.adt'', ''out.adt''] disk1))) = 0 \<and>
   content (disk (offsetFix_main (spec_steps sample_float_ops)
      [''offsetFix'', ''out.adt'', ''again.adt'']
      (disk (offsetFix_main (spec_steps sample_float_ops)
         [''offsetFix'', ''tile.adt'', ''out.adt''] disk1)))) ''again.adt'' =
   content (disk (offsetFix_main (spec_steps sample_float_ops)
      [''offsetFix'', ''tile.adt'', ''out.adt''] disk1)) ''out.adt''"
  using exit_run1 [of sample_float_ops]
    repair_idempotent [of sample_float_ops "''offsetFix''" "''tile.adt''" "''out.adt''" disk1
      "''again.adt''"]
  by (simp add: open_disk1)

end
